theory Spec2Isabelle
  imports Complex_Main
begin

section \<open>Numbers, vectors and errors\<close>

text \<open>
  The layout code computes with numpy arrays of float64. Finite float arithmetic is
  idealised as exact arithmetic on \<open>real\<close> (no rounding, no overflow). What is kept
  from IEEE arithmetic is division by zero: numpy does not raise there, it warns and
  yields inf, -inf or nan. \<open>NonFin\<close> stands for a float that is one of these three,
  without saying which. Addition, subtraction and multiplication with a
  non-finite operand are non-finite again (inf * 0 = nan, inf - inf = nan), and so
  is every quotient by zero. Where the result of an operation depends on which
  non-finite value an operand is, as for a minimum or a maximum, the model does not
  determine it: \<open>Undet\<close> stands for a float that may be finite or not.
\<close>

datatype fval = Fin real | NonFin | Undet

fun fadd :: "fval \<Rightarrow> fval \<Rightarrow> fval" where
  "fadd (Fin a) (Fin b) = Fin (a + b)"
| "fadd NonFin b = NonFin"
| "fadd a NonFin = NonFin"
| "fadd a b = Undet"

fun fsub :: "fval \<Rightarrow> fval \<Rightarrow> fval" where
  "fsub (Fin a) (Fin b) = Fin (a - b)"
| "fsub NonFin b = NonFin"
| "fsub a NonFin = NonFin"
| "fsub a b = Undet"

fun fmul :: "fval \<Rightarrow> fval \<Rightarrow> fval" where
  "fmul (Fin a) (Fin b) = Fin (a * b)"
| "fmul NonFin b = NonFin"
| "fmul a NonFin = NonFin"
| "fmul a b = Undet"

fun fneg :: "fval \<Rightarrow> fval" where
  "fneg (Fin a) = Fin (- a)"
| "fneg NonFin = NonFin"
| "fneg Undet = Undet"

text \<open>
  Division of a float by a finite float. The divisors of the source are components
  and dot products of direction vectors, which are only ever rotated, so they are
  finite; a zero divisor gives a non-finite quotient and no exception.
\<close>

fun fdiv :: "fval \<Rightarrow> real \<Rightarrow> fval" where
  "fdiv (Fin a) b = (if b = 0 then NonFin else Fin (a / b))"
| "fdiv NonFin b = NonFin"
| "fdiv Undet b = (if b = 0 then NonFin else Undet)"

type_synonym vec3 = "real \<times> real \<times> real"
type_synonym fvec3 = "fval \<times> fval \<times> fval"
type_synonym mat3 = "vec3 \<times> vec3 \<times> vec3"
type_synonym tfrm = "mat3 \<times> vec3"

text \<open>\<open>rot.dot(v)\<close> for a 3x3 matrix (given by its rows) and a 3-vector.\<close>

fun row_dot :: "vec3 \<Rightarrow> vec3 \<Rightarrow> real" where
  "row_dot (a0, a1, a2) (b0, b1, b2) = a0 * b0 + a1 * b1 + a2 * b2"

fun mat_dot :: "mat3 \<Rightarrow> vec3 \<Rightarrow> vec3" where
  "mat_dot (r0, r1, r2) v = (row_dot r0 v, row_dot r1 v, row_dot r2 v)"

fun frow_dot :: "fvec3 \<Rightarrow> vec3 \<Rightarrow> fval" where
  "frow_dot (a0, a1, a2) (b0, b1, b2) =
     fadd (fadd (fmul a0 (Fin b0)) (fmul a1 (Fin b1))) (fmul a2 (Fin b2))"

fun fmat_dot :: "mat3 \<Rightarrow> fvec3 \<Rightarrow> fvec3" where
  "fmat_dot (r0, r1, r2) v = (frow_dot v r0, frow_dot v r1, frow_dot v r2)"

fun fvec_add :: "fvec3 \<Rightarrow> fvec3 \<Rightarrow> fvec3" where
  "fvec_add (a0, a1, a2) (b0, b1, b2) = (fadd a0 b0, fadd a1 b1, fadd a2 b2)"

fun fvec_sub :: "fvec3 \<Rightarrow> fvec3 \<Rightarrow> fvec3" where
  "fvec_sub (a0, a1, a2) (b0, b1, b2) = (fsub a0 b0, fsub a1 b1, fsub a2 b2)"

fun fin_vec :: "vec3 \<Rightarrow> fvec3" where
  "fin_vec (a0, a1, a2) = (Fin a0, Fin a1, Fin a2)"

fun fscale :: "fval \<Rightarrow> vec3 \<Rightarrow> fvec3" where
  "fscale k (b0, b1, b2) = (fmul k (Fin b0), fmul k (Fin b1), fmul k (Fin b2))"

fun z_of :: "'a \<times> 'a \<times> 'a \<Rightarrow> 'a" where
  "z_of (a0, a1, a2) = a2"

fun y_of :: "'a \<times> 'a \<times> 'a \<Rightarrow> 'a" where
  "y_of (a0, a1, a2) = a1"

text \<open>The Python exceptions the modelled code can raise.\<close>

datatype error = IndexError | KeyError | ValueError | TypeError | AttributeError

text \<open>\<open>xs[i]\<close> for a non-negative index: out of range raises IndexError.\<close>

definition py_nth :: "'a list \<Rightarrow> nat \<Rightarrow> error + 'a" where
  "py_nth xs i = (if i < length xs then Inr (xs ! i) else Inl IndexError)"

text \<open>\<open>m[k]\<close> for a dict: a missing key raises KeyError.\<close>

definition py_get :: "('k \<rightharpoonup> 'v) \<Rightarrow> 'k \<Rightarrow> error + 'v" where
  "py_get m k = (case m k of None \<Rightarrow> Inl KeyError | Some v \<Rightarrow> Inr v)"

text \<open>
  Sequencing of statements that may raise: the first exception ends the
  computation, otherwise the value is handed on.
\<close>

fun ebind :: "error + 'a \<Rightarrow> ('a \<Rightarrow> error + 'b) \<Rightarrow> error + 'b" where
  "ebind (Inl e) f = Inl e"
| "ebind (Inr x) f = f x"

section \<open>Geometry utilities of gui/layout.py\<close>

text \<open>
  \<open>RaySeg\<close> is the named tuple (p, d, dst, nrml) of the ray trace. The point and
  the distance of a shifted start segment are quotients, so they are \<open>fval\<close>s; the
  direction and the normal are copied or rotated only. A ray package carries the
  list of segments of one ray (its optical path and wavelength play no part here).
\<close>

record RaySeg =
  seg_p :: fvec3
  seg_d :: vec3
  seg_dst :: fval
  seg_nrml :: vec3

record RayPkg =
  ray :: "RaySeg list"

type_synonym pt2 = "fval \<times> fval"
type_synonym bbox = "pt2 \<times> pt2"

text \<open>
  \<open>shift_start_of_ray_bundle\<close>: the body of the loop for the ray with index
  \<open>ri\<close>, then the loop. The result is the updated \<open>start_bundle\<close>; on an exception
  the list is a local of the caller and is dropped.
\<close>

definition shift_ray ::
  "RaySeg list \<Rightarrow> nat \<Rightarrow> RayPkg \<Rightarrow> mat3 \<Rightarrow> vec3 \<Rightarrow> error + RaySeg list" where
  "shift_ray start_bundle ri r rot t =
     (case py_nth (ray r) 1 of Inl e \<Rightarrow> Inl e | Inr r1 \<Rightarrow>
      let b4_pt = fvec_sub (fmat_dot rot (seg_p r1)) (fin_vec t) in
      (case py_nth (ray r) 0 of Inl e \<Rightarrow> Inl e | Inr r0 \<Rightarrow>
       let b4_dir = mat_dot rot (seg_d r0) in
       (case (if ri = 0 then Inr (fdiv (fneg (z_of b4_pt)) (z_of b4_dir))
              else (case py_nth start_bundle 0 of Inl e \<Rightarrow> Inl e | Inr s0 \<Rightarrow>
                    let pt0 = seg_p s0; dir0 = seg_d s0 in
                    Inr (fdiv (fneg (frow_dot (fvec_sub b4_pt pt0) dir0))
                              (row_dot b4_dir dir0))))
        of Inl e \<Rightarrow> Inl e | Inr dst \<Rightarrow>
        let pt = fvec_add b4_pt (fscale dst b4_dir);
            ray0 = \<lparr>seg_p = pt, seg_d = b4_dir, seg_dst = dst, seg_nrml = seg_nrml r0\<rparr>
        in if ri < length start_bundle then Inr (start_bundle[ri := ray0])
           else Inl IndexError)))"

fun shift_loop ::
  "RaySeg list \<Rightarrow> nat \<Rightarrow> RayPkg list \<Rightarrow> mat3 \<Rightarrow> vec3 \<Rightarrow> error + RaySeg list" where
  "shift_loop start_bundle ri [] rot t = Inr start_bundle"
| "shift_loop start_bundle ri (r # rs) rot t =
     (case shift_ray start_bundle ri r rot t of
        Inl e \<Rightarrow> Inl e
      | Inr sb \<Rightarrow> shift_loop sb (Suc ri) rs rot t)"

definition shift_start_of_ray_bundle ::
  "RaySeg list \<Rightarrow> RayPkg list \<Rightarrow> mat3 \<Rightarrow> vec3 \<Rightarrow> error + RaySeg list" where
  "shift_start_of_ray_bundle start_bundle ray_bundle rot t =
     shift_loop start_bundle 0 ray_bundle rot t"

text \<open>\<open>transform_ray_seg\<close> appends the plot point (z, y) of the transformed segment.\<close>

definition transform_ray_seg :: "pt2 list \<Rightarrow> RaySeg \<Rightarrow> tfrm \<Rightarrow> pt2 list" where
  "transform_ray_seg poly r tf =
     (let p = fvec_add (fmat_dot (fst tf) (seg_p r)) (fin_vec (snd tf))
      in poly @ [(z_of p, y_of p)])"

text \<open>
  \<open>np.min\<close> and \<open>np.max\<close> along a column. On an empty column numpy raises
  ValueError. Of finite entries the extremum is taken. A nan in the column is
  returned; an infinity is returned or passed over, according to its sign. So the
  extremum of non-finite entries only is non-finite, and the extremum of a column
  that mixes finite and non-finite entries is not determined by this model: numpy
  gives nan, an infinity or the finite extremum there.
\<close>

fun fmin :: "fval \<Rightarrow> fval \<Rightarrow> fval" where
  "fmin (Fin a) (Fin b) = Fin (min a b)"
| "fmin NonFin NonFin = NonFin"
| "fmin a b = Undet"

fun fmax :: "fval \<Rightarrow> fval \<Rightarrow> fval" where
  "fmax (Fin a) (Fin b) = Fin (max a b)"
| "fmax NonFin NonFin = NonFin"
| "fmax a b = Undet"

fun np_min :: "fval list \<Rightarrow> error + fval" where
  "np_min [] = Inl ValueError"
| "np_min (x # xs) = Inr (foldl fmin x xs)"

fun np_max :: "fval list \<Rightarrow> error + fval" where
  "np_max [] = Inl ValueError"
| "np_max (x # xs) = Inr (foldl fmax x xs)"

definition bbox_from_poly :: "pt2 list \<Rightarrow> error + bbox" where
  "bbox_from_poly poly =
     (case np_min (map fst poly) of Inl e \<Rightarrow> Inl e | Inr minx \<Rightarrow>
      case np_min (map snd poly) of Inl e \<Rightarrow> Inl e | Inr miny \<Rightarrow>
      case np_max (map fst poly) of Inl e \<Rightarrow> Inl e | Inr maxx \<Rightarrow>
      case np_max (map snd poly) of Inl e \<Rightarrow> Inl e | Inr maxy \<Rightarrow>
      Inr ((minx, miny), (maxx, maxy)))"

text \<open>
  The array argument of \<open>transform_poly\<close> and \<open>inv_transform_poly\<close> is either a
  single point, a 1-D array of shape (2,), as \<open>on_edit_shape\<close> passes it, or a
  polygon, a 2-D array of shape (N, 2), as \<open>update_shape\<close> passes it.
\<close>

datatype ndarray = Pt pt2 | Poly "pt2 list"

text \<open>
  The 2x2 block \<open>tfrm[0][1:, 1:]\<close> applied to the flipped point (y, x), and the
  translation \<open>[tfrm[1][1], tfrm[1][2]]\<close>.
\<close>

fun rot2 :: "mat3 \<Rightarrow> pt2 \<Rightarrow> pt2" where
  "rot2 ((r00, r01, r02), (r10, r11, r12), (r20, r21, r22)) (a, b) =
     (fadd (fmul (Fin r11) a) (fmul (Fin r12) b),
      fadd (fmul (Fin r21) a) (fmul (Fin r22) b))"

fun coord_flip :: "pt2 \<Rightarrow> pt2" where
  "coord_flip (a, b) = (b, a)"

definition transform_pt :: "tfrm \<Rightarrow> pt2 \<Rightarrow> pt2" where
  "transform_pt tf q =
     (let w = rot2 (fst tf) (coord_flip q)
      in coord_flip (fadd (fst w) (Fin (y_of (snd tf))), fadd (snd w) (Fin (z_of (snd tf)))))"

text \<open>
  \<open>transform_poly\<close>: on a polygon every row is flipped, rotated, translated and
  flipped back, and the bounding box is taken; the result is again an array of
  shape (N, 2), given by its rows. An empty polygon is the 1-D array
  \<open>np.array([])\<close>, whose product with the 2x2 flip raises ValueError. On a single
  point the unpacking in \<open>bbox_from_poly\<close> of a scalar minimum raises TypeError.
\<close>

definition transform_poly :: "tfrm \<Rightarrow> ndarray \<Rightarrow> error + (pt2 list \<times> bbox)" where
  "transform_poly tf poly =
     (case poly of
        Pt q \<Rightarrow> Inl TypeError
      | Poly ps \<Rightarrow>
          if ps = [] then Inl ValueError
          else (let gbl = map (transform_pt tf) ps
                in ebind (bbox_from_poly gbl) (\<lambda>bb. Inr (gbl, bb))))"

text \<open>
  \<open>inv_transform_poly\<close>: the array is flipped and transposed to shape (2, N) before
  the in-place \<open>poly -= t\<close> with \<open>t\<close> of shape (2,). For a single point that
  subtracts \<open>t\<close> from the flipped point. For a polygon, numpy broadcasts \<open>t\<close> along
  the last axis, which has length N: this raises ValueError unless N = 2, and for
  N = 2 it subtracts \<open>t[j]\<close> from both coordinates of point j. The same 2x2 block as
  in \<open>transform_poly\<close> is then applied, and the result flipped back.
\<close>

definition inv_pt :: "tfrm \<Rightarrow> fval \<Rightarrow> fval \<Rightarrow> pt2 \<Rightarrow> pt2" where
  "inv_pt tf ta tb q =
     (let f = coord_flip q
      in coord_flip (rot2 (fst tf) (fsub (fst f) ta, fsub (snd f) tb)))"

definition inv_transform_poly :: "tfrm \<Rightarrow> ndarray \<Rightarrow> error + ndarray" where
  "inv_transform_poly tf poly =
     (let ty = Fin (y_of (snd tf)); tz = Fin (z_of (snd tf)) in
      case poly of
        Pt q \<Rightarrow> Inr (Pt (inv_pt tf ty tz q))
      | Poly ps \<Rightarrow>
          (case ps of
             [q0, q1] \<Rightarrow> Inr (Poly [inv_pt tf ty ty q0, inv_pt tf tz tz q1])
           | _ \<Rightarrow> Inl ValueError))"

text \<open>
  The 2x2 block \<open>tfrm[0][1:, 1:]\<close> of a rotation is its own inverse: the unit
  matrix of an unrotated surface is, and so is a half turn.
\<close>

fun self_inverse_block :: "mat3 \<Rightarrow> bool" where
  "self_inverse_block ((r00, r01, r02), (r10, r11, r12), (r20, r21, r22)) \<longleftrightarrow>
     r11 * r11 + r12 * r21 = 1 \<and> r11 * r12 + r12 * r22 = 0
     \<and> r21 * r11 + r22 * r21 = 0 \<and> r21 * r12 + r22 * r22 = 1"

text \<open>
  The segment that the loop body stores for the chief ray (index 0): the point
  where the ray, taken in the frame of the virtual first surface, meets the plane
  z = 0 of that frame.
\<close>

definition chief_seg :: "RayPkg \<Rightarrow> mat3 \<Rightarrow> vec3 \<Rightarrow> RaySeg" where
  "chief_seg r rot t =
     (let b4_pt = fvec_sub (fmat_dot rot (seg_p (ray r ! 1))) (fin_vec t);
          b4_dir = mat_dot rot (seg_d (ray r ! 0));
          dst = fdiv (fneg (z_of b4_pt)) (z_of b4_dir)
      in \<lparr>seg_p = fvec_add b4_pt (fscale dst b4_dir), seg_d = b4_dir,
          seg_dst = dst, seg_nrml = seg_nrml (ray r ! 0)\<rparr>)"

text \<open>A segment whose point and distance are not finite numbers.\<close>

definition nonfin_seg :: "RaySeg \<Rightarrow> bool" where
  "nonfin_seg s \<longleftrightarrow> seg_p s = (NonFin, NonFin, NonFin) \<and> seg_dst s = NonFin"

section \<open>Shapes of gui/layout.py\<close>

text \<open>
  What the view's \<open>create_polygon\<close> and \<open>create_polyline\<close> return: a filled
  polygon with its face colour (the result of \<open>rgb2mpl\<close>) and the \<open>zorder\<close> keyword
  when one is passed, or an open line.
\<close>

datatype drawable =
  Polygon "pt2 list" "real list option" "real option"
| Line2D "pt2 list"

definition rgb2mpl :: "real list \<Rightarrow> real list option" where
  "rgb2mpl rgb =
     (if length rgb = 3 then Some [rgb ! 0 / 255, rgb ! 1 / 255, rgb ! 2 / 255]
      else if length rgb = 4 then Some [rgb ! 0 / 255, rgb ! 1 / 255, rgb ! 2 / 255, rgb ! 3 / 255]
      else None)"

definition create_polygon :: "pt2 list \<Rightarrow> real list \<Rightarrow> real option \<Rightarrow> drawable" where
  "create_polygon poly rgb_color zorder = Polygon poly (rgb2mpl rgb_color) zorder"

definition create_polyline :: "pt2 list \<Rightarrow> drawable" where
  "create_polyline poly = Line2D poly"

type_synonym handles = "string \<rightharpoonup> (drawable \<times> bbox)"

subsection \<open>RayBundle\<close>

text \<open>
  The sequential model as \<open>RayBundle.update_shape\<close> uses it: the list of global
  transforms \<open>gbl_tfrms\<close>, which the method overwrites in place, and the numbers of
  interfaces and gaps that \<open>setup_shift_of_ray_bundle\<close> indexes. The transform of
  the virtual first surface is computed by \<open>transform.reverse_transform\<close> of the
  optical package, which is not part of these sources: it is the parameter
  \<open>reverse_transform\<close>, a function of the start offset.
\<close>

record seq_model =
  gbl_tfrms :: "tfrm list"
  num_ifcs :: nat
  num_gaps :: nat

definition setup_shift_of_ray_bundle ::
  "(real \<Rightarrow> tfrm) \<Rightarrow> seq_model \<Rightarrow> real \<Rightarrow> error + tfrm" where
  "setup_shift_of_ray_bundle reverse_transform sm start_offset =
     (if num_ifcs sm < 2 then Inl IndexError
      else if num_gaps sm < 1 then Inl IndexError
      else Inr (reverse_transform start_offset))"

text \<open>
  The ray bundle of one field point: its start offset, the dictionary of boundary
  rays of the last trace (in insertion order, the chief ray \<open>00\<close> first), its
  handles, its action table (a dictionary from the event kind to a closure of the
  bundle) and whether a \<open>ray_table_callback\<close> was given.
\<close>

datatype bundle_action = OnSelectRay

record ray_bundle =
  start_offset :: real
  rayset :: "(string \<times> RayPkg) list"
  rb_handles :: handles
  rb_actions :: "string \<rightharpoonup> bundle_action"
  has_ray_table_callback :: bool

text \<open>The loop \<open>for i, r in enumerate(segs, i): transform_ray_seg(poly, r, tfrms[i])\<close>.\<close>

fun render_segs :: "pt2 list \<Rightarrow> nat \<Rightarrow> RaySeg list \<Rightarrow> tfrm list \<Rightarrow> error + pt2 list" where
  "render_segs poly i [] tfrms = Inr poly"
| "render_segs poly i (r # rs) tfrms =
     (case py_nth tfrms i of
        Inl e \<Rightarrow> Inl e
      | Inr tf \<Rightarrow> render_segs (transform_ray_seg poly r tf) (Suc i) rs tfrms)"

definition render_ray :: "RaySeg list \<Rightarrow> RaySeg \<Rightarrow> tfrm list \<Rightarrow> error + pt2 list" where
  "render_ray segs start_seg tfrms =
     ebind (py_nth tfrms 0) (\<lambda>tf0.
     render_segs (transform_ray_seg [] start_seg tf0) 1 (tl segs) tfrms)"

definition render_shape ::
  "(string \<times> RayPkg) list \<Rightarrow> RaySeg list \<Rightarrow> tfrm list \<Rightarrow> error + (pt2 list \<times> bbox)" where
  "render_shape rset start_bundle tfrms =
     ebind (py_nth start_bundle 3) (\<lambda>s3.
     ebind (py_nth tfrms 0) (\<lambda>tf0.
     ebind (py_get (map_of rset) ''+Y'') (\<lambda>upper.
     ebind (render_segs (transform_ray_seg [] s3 tf0) 1 (tl (ray upper)) tfrms) (\<lambda>poly1.
     ebind (py_nth start_bundle 4) (\<lambda>s4.
     ebind (py_get (map_of rset) ''-Y'') (\<lambda>lower.
     ebind (render_segs (transform_ray_seg [] s4 tf0) 1 (tl (ray lower)) tfrms) (\<lambda>poly2.
     ebind (bbox_from_poly (poly1 @ rev poly2)) (\<lambda>bb.
     Inr (poly1 @ rev poly2, bb)))))))))"

text \<open>The list comprehension \<open>[r.ray[0] for r in self.rayset.values()]\<close>.\<close>

fun first_segs :: "RayPkg list \<Rightarrow> error + RaySeg list" where
  "first_segs [] = Inr []"
| "first_segs (r # rs) =
     (case py_nth (ray r) 0 of
        Inl e \<Rightarrow> Inl e
      | Inr s \<Rightarrow> (case first_segs rs of Inl e \<Rightarrow> Inl e | Inr ss \<Rightarrow> Inr (s # ss)))"

text \<open>The body of the \<open>try\<close> block of \<open>RayBundle.update_shape\<close>.\<close>

definition render_bundle ::
  "(string \<times> RayPkg) list \<Rightarrow> RaySeg list \<Rightarrow> tfrm list
     \<Rightarrow> error + ((pt2 list \<times> bbox) \<times> pt2 list \<times> pt2 list \<times> pt2 list)" where
  "render_bundle rset start_bundle tfrms =
     ebind (render_shape rset start_bundle tfrms) (\<lambda>pb.
     ebind (py_get (map_of rset) ''00'') (\<lambda>chief.
     ebind (py_nth start_bundle 0) (\<lambda>s0.
     ebind (render_ray (ray chief) s0 tfrms) (\<lambda>cr.
     ebind (py_get (map_of rset) ''+Y'') (\<lambda>upper.
     ebind (py_nth start_bundle 3) (\<lambda>s3.
     ebind (render_ray (ray upper) s3 tfrms) (\<lambda>upr.
     ebind (py_get (map_of rset) ''-Y'') (\<lambda>lower.
     ebind (py_nth start_bundle 4) (\<lambda>s4.
     ebind (render_ray (ray lower) s4 tfrms) (\<lambda>lwr.
     Inr (pb, cr, upr, lwr)))))))))))"

text \<open>The statements after the \<open>try\<close> block: the four handles are stored.\<close>

definition store_bundle_handles ::
  "ray_bundle \<Rightarrow> (pt2 list \<times> bbox) \<times> pt2 list \<times> pt2 list \<times> pt2 list
     \<Rightarrow> ray_bundle \<times> (error + handles)" where
  "store_bundle_handles rb res =
     (case res of ((poly, bb), cr, upr, lwr) \<Rightarrow>
      let h1 = (rb_handles rb)(''shape'' \<mapsto> (create_polygon poly [254, 197, 254, 64] None, bb));
          rb1 = rb\<lparr>rb_handles := h1\<rparr> in
      case bbox_from_poly cr of Inl e \<Rightarrow> (rb1, Inl e) | Inr bcr \<Rightarrow>
      let rb2 = rb1\<lparr>rb_handles := (rb_handles rb1)(''00'' \<mapsto> (create_polyline cr, bcr))\<rparr> in
      case bbox_from_poly upr of Inl e \<Rightarrow> (rb2, Inl e) | Inr bupr \<Rightarrow>
      let rb3 = rb2\<lparr>rb_handles := (rb_handles rb2)(''+Y'' \<mapsto> (create_polyline upr, bupr))\<rparr> in
      case bbox_from_poly lwr of Inl e \<Rightarrow> (rb3, Inl e) | Inr blwr \<Rightarrow>
      let rb4 = rb3\<lparr>rb_handles := (rb_handles rb3)(''-Y'' \<mapsto> (create_polyline lwr, blwr))\<rparr> in
      (rb4, Inr (rb_handles rb4)))"

text \<open>
  \<open>RayBundle.update_shape\<close>. The arguments are the parameter \<open>reverse_transform\<close>,
  the dictionary \<open>traced\<close> that the ray trace and \<open>boundary_ray_dict\<close> return (both
  outside these sources), the sequential model and the bundle. The result is the
  state in which the method returns or raises, and the returned handles or the
  exception. The stages follow the source: the first transform is saved, the start
  segments are collected, the override and the shift happen before the \<open>try\<close>
  statement, the rendering inside it, and the \<open>finally\<close> clause writes the saved
  transform back.
\<close>

definition RayBundle_update_shape ::
  "(real \<Rightarrow> tfrm) \<Rightarrow> (string \<times> RayPkg) list \<Rightarrow> seq_model \<Rightarrow> ray_bundle
     \<Rightarrow> (seq_model \<times> ray_bundle) \<times> (error + handles)" where
  "RayBundle_update_shape reverse_transform traced sm rb0 =
     (let rb = rb0\<lparr>rayset := traced\<rparr> in
      case py_nth (gbl_tfrms sm) 0 of Inl e \<Rightarrow> ((sm, rb), Inl e) | Inr tfrtm0 \<Rightarrow>
      case first_segs (map snd (rayset rb)) of Inl e \<Rightarrow> ((sm, rb), Inl e) | Inr start_bundle \<Rightarrow>
      case (if \<bar>z_of (snd tfrtm0)\<bar> > start_offset rb
            then (case setup_shift_of_ray_bundle reverse_transform sm (start_offset rb) of
                    Inl e \<Rightarrow> (sm, Inl e)
                  | Inr (rot, t) \<Rightarrow>
                      let sm1 = sm\<lparr>gbl_tfrms := (gbl_tfrms sm)[0 := (rot, t)]\<rparr> in
                      (sm1, shift_start_of_ray_bundle start_bundle (map snd (rayset rb)) rot t))
            else (sm, Inr start_bundle))
      of (sm1, Inl e) \<Rightarrow> ((sm1, rb), Inl e)
       | (sm1, Inr start_bundle1) \<Rightarrow>
           let tried = render_bundle (rayset rb) start_bundle1 (gbl_tfrms sm1);
               sm2 = sm1\<lparr>gbl_tfrms := (gbl_tfrms sm1)[0 := tfrtm0]\<rparr> in
           (case tried of
              Inl e \<Rightarrow> ((sm2, rb), Inl e)
            | Inr res \<Rightarrow>
                (case store_bundle_handles rb res of (rb', out) \<Rightarrow> ((sm2, rb'), out))))"

subsection \<open>OpticalElement\<close>

text \<open>
  A Python attribute that may not have been assigned yet: reading it when it is
  unset raises AttributeError. Python's \<open>None\<close> is the \<open>None\<close> of an option type.
\<close>

datatype 'a attr = Unset | Attr 'a

text \<open>
  A pointer event of the backend: the pixel position, and the position in data
  coordinates, which is \<open>None\<close> while the pointer is outside the axes.
\<close>

record event =
  ev_x :: real
  ev_y :: real
  xdata :: "real option"
  ydata :: "real option"

text \<open>
  The handlers in the action dictionaries of the model elements are closures of the
  optical package. A call of one is recorded with the key of the action object
  (\<open>x\<close>, \<open>y\<close>, \<open>pt\<close>, ...), the event kind and the extra argument that a drag
  passes; what the handler does to the optical model is outside these sources.
  \<open>fig.refresh_gui()\<close> and the calls to the rendering backend are recorded as well.
\<close>

datatype drag_arg = NoArg | LclPt ndarray | Delta real

datatype call =
  Handler string string drag_arg
| RefreshGui
| RayTableCallback
| SetRayTable string
| Highlight nat
| Unhighlight nat
| CanvasDraw

datatype element_action = OnSelectShape | OnEditShape | OnReleaseShape

text \<open>One entry of \<open>e.handles\<close>: the local polygon, its transform and its tag.\<close>

type_synonym handle_value = "pt2 list \<times> tfrm \<times> string"

text \<open>
  The shape of an optical element: its own handles, its action table, the
  handle-action table \<open>e.handle_actions()\<close> (for every handle the ordered
  dictionary from a key to the set of event kinds its action object handles), the
  press point and the axis lock, and of the model element \<open>e\<close> the rendered handles
  (in insertion order) and the colour.
\<close>

record optical_element =
  oe_handles :: handles
  oe_actions :: "string \<rightharpoonup> element_action"
  handle_actions :: "string \<rightharpoonup> (string \<times> string set) list"
  select_pt :: "((real \<times> real) \<times> (real option \<times> real option)) option attr"
  move_direction :: "string option attr"
  e_handles :: "(string \<times> handle_value) list"
  e_render_color :: "real list"

text \<open>
  The body of the loop of \<open>OpticalElement.update_shape\<close> up to the assignment:
  the polygon is transformed, then the tag selects the artifact; \<open>None\<close> is the
  \<open>break\<close> of the last branch.
\<close>

definition draw_handle :: "real list \<Rightarrow> handle_value \<Rightarrow> error + (drawable \<times> bbox) option" where
  "draw_handle color v =
     (case v of (poly, tf, tag) \<Rightarrow>
      ebind (transform_poly tf (Poly poly)) (\<lambda>(poly_gbl, bb).
        if tag = ''polygon'' then Inr (Some (create_polygon poly_gbl color (Some 2.5), bb))
        else if tag = ''polyline'' then Inr (Some (create_polyline poly_gbl, bb))
        else Inr None))"

fun update_handles ::
  "real list \<Rightarrow> handles \<Rightarrow> (string \<times> handle_value) list \<Rightarrow> handles \<times> (error + unit)" where
  "update_handles color h [] = (h, Inr ())"
| "update_handles color h ((key, v) # rest) =
     (case draw_handle color v of
        Inl e \<Rightarrow> (h, Inl e)
      | Inr None \<Rightarrow> (h, Inr ())
      | Inr (Some pb) \<Rightarrow> update_handles color (h(key \<mapsto> pb)) rest)"

text \<open>
  \<open>OpticalElement.update_shape\<close>. \<open>rendered\<close> is the value of \<open>e.handles\<close> after
  \<open>e.render_handles\<close>, a method of the optical package. The result is the shape
  when the method returns or raises, and the returned \<open>self.handles\<close>.
\<close>

definition OpticalElement_update_shape ::
  "(string \<times> handle_value) list \<Rightarrow> optical_element \<Rightarrow> optical_element \<times> (error + handles)" where
  "OpticalElement_update_shape rendered el0 =
     (let el = el0\<lparr>e_handles := rendered\<rparr> in
      case update_handles (e_render_color el) (oe_handles el) (e_handles el) of
        (h, Inl e) \<Rightarrow> (el\<lparr>oe_handles := h\<rparr>, Inl e)
      | (h, Inr u) \<Rightarrow> (el\<lparr>oe_handles := h\<rparr>, Inr h))"

text \<open>The tags for which the loop stores a handle.\<close>

definition known_tag :: "string \<times> handle_value \<Rightarrow> bool" where
  "known_tag kv \<longleftrightarrow> snd (snd (snd kv)) = ''polygon'' \<or> snd (snd (snd kv)) = ''polyline''"


text \<open>
  \<open>edit_shape_actions\<close> and \<open>edit_ray_bundle_actions\<close> build the action tables:
  an optical element handles press, drag and release, a ray bundle only press.
\<close>

definition edit_shape_actions :: "string \<rightharpoonup> element_action" where
  "edit_shape_actions =
     [''press'' \<mapsto> OnSelectShape, ''drag'' \<mapsto> OnEditShape, ''release'' \<mapsto> OnReleaseShape]"

definition edit_ray_bundle_actions :: "string \<rightharpoonup> bundle_action" where
  "edit_ray_bundle_actions = [''press'' \<mapsto> OnSelectRay]"

text \<open>
  The loop \<open>for key, action_obj in handle_actions.items():
  action_obj.actions[kind](fig, event)\<close>: an action object without a handler for
  the kind raises KeyError, after the calls made so far.
\<close>

fun call_all :: "string \<Rightarrow> (string \<times> string set) list \<Rightarrow> call list \<times> (error + unit)" where
  "call_all kind [] = ([], Inr ())"
| "call_all kind ((key, kinds) # rest) =
     (if kind \<in> kinds
      then (case call_all kind rest of (cs, r) \<Rightarrow> (Handler key kind NoArg # cs, r))
      else ([], Inl KeyError))"

text \<open>
  The handlers of an optical element. Each takes the shape, the handle and the
  event, and gives the shape and the recorded calls at the point where it returns
  or raises.
\<close>

definition on_select_shape ::
  "optical_element \<Rightarrow> string \<Rightarrow> event \<Rightarrow> (optical_element \<times> call list) \<times> (error + unit)" where
  "on_select_shape el handle ev =
     (case py_get (handle_actions el) handle of
        Inl e \<Rightarrow> ((el, []), Inl e)
      | Inr ha \<Rightarrow>
          (case call_all ''press'' ha of
             (cs, Inl e) \<Rightarrow> ((el, cs), Inl e)
           | (cs, Inr u) \<Rightarrow>
               ((el\<lparr>select_pt := Attr (Some ((ev_x ev, ev_y ev), (xdata ev, ydata ev)))\<rparr>, cs),
                Inr ())))"

definition on_release_shape ::
  "optical_element \<Rightarrow> string \<Rightarrow> event \<Rightarrow> (optical_element \<times> call list) \<times> (error + unit)" where
  "on_release_shape el handle ev =
     (case py_get (handle_actions el) handle of
        Inl e \<Rightarrow> ((el, []), Inl e)
      | Inr ha \<Rightarrow>
          (case call_all ''release'' ha of
             (cs, Inl e) \<Rightarrow> ((el, cs), Inl e)
           | (cs, Inr u) \<Rightarrow>
               ((el\<lparr>select_pt := Attr None, move_direction := Attr None\<rparr>, cs), Inr ())))"

text \<open>An operand of float arithmetic: \<open>None\<close> raises TypeError.\<close>

definition num :: "real option \<Rightarrow> error + real" where
  "num v = (case v of None \<Rightarrow> Inl TypeError | Some r \<Rightarrow> Inr r)"

text \<open>The axis chosen from the pixel deltas while no axis is locked.\<close>

definition new_direction :: "real \<Rightarrow> real \<Rightarrow> string option" where
  "new_direction delta_x delta_y =
     (if delta_x > delta_y then Some ''x''
      else if delta_x < delta_y then Some ''y''
      else None)"

text \<open>
  The reads of \<open>on_edit_shape\<close> before its first assignment: the handle-action
  table of the handle, the press point, the data coordinates and the axis lock.
  The result is the table, the axis lock after the \<open>if\<close> statement, the data
  position of the event and the data position of the press.
\<close>

definition edit_reads ::
  "optical_element \<Rightarrow> string \<Rightarrow> event
     \<Rightarrow> error + ((string \<times> string set) list \<times> string option \<times> (real \<times> real) \<times> (real \<times> real))" where
  "edit_reads el handle ev =
     ebind (py_get (handle_actions el) handle) (\<lambda>ha.
     ebind (case select_pt el of
              Unset \<Rightarrow> Inl AttributeError
            | Attr None \<Rightarrow> Inl TypeError
            | Attr (Some sp) \<Rightarrow> Inr sp) (\<lambda>sp.
     ebind (num (fst (snd sp))) (\<lambda>pxdata.
     ebind (num (xdata ev)) (\<lambda>exdata.
     ebind (num (snd (snd sp))) (\<lambda>pydata.
     ebind (num (ydata ev)) (\<lambda>eydata.
     ebind (case move_direction el of Unset \<Rightarrow> Inl AttributeError | Attr md \<Rightarrow> Inr md) (\<lambda>md.
     Inr (ha,
          (if md = None
           then new_direction \<bar>fst (fst sp) - ev_x ev\<bar> \<bar>snd (fst sp) - ev_y ev\<bar>
           else md),
          (exdata, eydata), (pxdata, pydata)))))))))"

text \<open>
  The dispatch at the end of \<open>on_edit_shape\<close>: a \<open>pt\<close> entry of the table takes
  the drag, with the local point; otherwise the entry of the locked axis, with the
  data delta along that axis. An entry without a \<open>drag\<close> handler takes nothing.
\<close>

definition drag_calls ::
  "(string \<times> string set) list \<Rightarrow> string option \<Rightarrow> ndarray \<Rightarrow> real \<times> real \<Rightarrow> call list" where
  "drag_calls ha md lcl_pt dxdy =
     (case map_of ha ''pt'' of
        Some kinds \<Rightarrow>
          (if ''drag'' \<in> kinds then [Handler ''pt'' ''drag'' (LclPt lcl_pt)] else [])
      | None \<Rightarrow>
          (case md of
             None \<Rightarrow> []
           | Some k \<Rightarrow>
               (case map_of ha k of
                  None \<Rightarrow> []
                | Some kinds \<Rightarrow>
                    if ''drag'' \<in> kinds
                    then (if k = ''x'' then [Handler ''x'' ''drag'' (Delta (fst dxdy))]
                          else if k = ''y'' then [Handler ''y'' ''drag'' (Delta (snd dxdy))]
                          else [])
                    else [])))"

definition on_edit_shape ::
  "optical_element \<Rightarrow> string \<Rightarrow> event \<Rightarrow> (optical_element \<times> call list) \<times> (error + unit)" where
  "on_edit_shape el handle ev =
     (case edit_reads el handle ev of
        Inl e \<Rightarrow> ((el, []), Inl e)
      | Inr (ha, md, (exdata, eydata), (pxdata, pydata)) \<Rightarrow>
          let el1 = el\<lparr>move_direction := Attr md\<rparr> in
          (case ebind (py_get (map_of (e_handles el1)) handle)
                  (\<lambda>hv. inv_transform_poly (fst (snd hv)) (Pt (Fin exdata, Fin eydata))) of
             Inl e \<Rightarrow> ((el1, []), Inl e)
           | Inr lcl_pt \<Rightarrow>
               ((el1, drag_calls ha md lcl_pt (exdata - pxdata, eydata - pydata) @ [RefreshGui]),
                Inr ())))"

definition run_element_action ::
  "element_action \<Rightarrow> optical_element \<Rightarrow> string \<Rightarrow> event
     \<Rightarrow> (optical_element \<times> call list) \<times> (error + unit)" where
  "run_element_action act el handle ev =
     (case act of
        OnSelectShape \<Rightarrow> on_select_shape el handle ev
      | OnEditShape \<Rightarrow> on_edit_shape el handle ev
      | OnReleaseShape \<Rightarrow> on_release_shape el handle ev)"

text \<open>
  The press handler of a ray bundle: for a handle other than \<open>shape\<close> the ray
  table is fetched and bound to the ray of the handle.
\<close>

definition on_select_ray :: "ray_bundle \<Rightarrow> string \<Rightarrow> call list \<times> (error + unit)" where
  "on_select_ray rb handle =
     (if handle \<noteq> ''shape''
      then (if \<not> has_ray_table_callback rb then ([], Inl TypeError)
            else (case py_get (map_of (rayset rb)) handle of
                    Inl e \<Rightarrow> ([RayTableCallback], Inl e)
                  | Inr pkg \<Rightarrow> ([RayTableCallback, SetRayTable handle, RefreshGui], Inr ())))
      else ([], Inr ()))"

text \<open>
  The constructors of the shapes. \<open>OpticalElement.__init__\<close> sets the handles,
  the action table and the handle-action table of the model element \<open>e\<close>; it
  assigns neither \<open>select_pt\<close> nor \<open>move_direction\<close>. \<open>LensElement.__init__\<close>
  sets both to \<open>None\<close> after it; \<open>MirrorElement.__init__\<close> adds nothing. The
  arguments are what the shape reads of \<open>e\<close>: the result of \<open>e.handle_actions()\<close>,
  its rendered handles and its colour.
\<close>

definition OpticalElement_init ::
  "(string \<rightharpoonup> (string \<times> string set) list) \<Rightarrow> (string \<times> handle_value) list \<Rightarrow> real list
     \<Rightarrow> optical_element" where
  "OpticalElement_init e_handle_actions rendered color =
     \<lparr>oe_handles = Map.empty, oe_actions = edit_shape_actions,
      handle_actions = e_handle_actions, select_pt = Unset, move_direction = Unset,
      e_handles = rendered, e_render_color = color\<rparr>"

definition LensElement_init ::
  "(string \<rightharpoonup> (string \<times> string set) list) \<Rightarrow> (string \<times> handle_value) list \<Rightarrow> real list
     \<Rightarrow> optical_element" where
  "LensElement_init e_handle_actions rendered color =
     (OpticalElement_init e_handle_actions rendered color)
       \<lparr>select_pt := Attr None, move_direction := Attr None\<rparr>"

definition MirrorElement_init ::
  "(string \<rightharpoonup> (string \<times> string set) list) \<Rightarrow> (string \<times> handle_value) list \<Rightarrow> real list
     \<Rightarrow> optical_element" where
  "MirrorElement_init e_handle_actions rendered color =
     OpticalElement_init e_handle_actions rendered color"

section \<open>The interactive scene of mpl/interactivelayout.py\<close>

text \<open>
  An artist of the rendering backend, as the scene uses it: its identity, the
  attribute \<open>shape\<close> that \<open>update_patches\<close> attaches (the shape object and the
  handle key; other children of the axes have none) and its z-order. Shape
  objects are shared between artists, so an artist refers to its shape by an
  address in the store \<open>shapes\<close> of the scene.
\<close>

record artist =
  art_id :: nat
  art_shape :: "(nat \<times> string) option"
  zorder :: real

datatype shape_obj = Element optical_element | Bundle ray_bundle

text \<open>
  The state of \<open>InteractiveLayout\<close> that the event handlers read and write, with
  the children of the axes in the order the backend lists them, which is the
  order in which they were added, and the record of the calls made.
\<close>

record scene =
  hilited_artist :: "artist option"
  selected_artist :: "artist option"
  do_scale_bounds :: bool
  children :: "artist list"
  shapes :: "nat \<Rightarrow> shape_obj"
  calls :: "call list"

text \<open>
  \<open>find_artists_at_location\<close>. \<open>contains\<close> is the hit test of the backend.
  Python's \<open>sorted\<close> is stable, also with \<open>reverse=True\<close>: the artists come by
  descending z-order, and artists of equal z-order stay in the order of the
  children. That is the stable insertion sort on the negated key.
\<close>

definition find_artists_at_location ::
  "(artist \<Rightarrow> event \<Rightarrow> bool) \<Rightarrow> 'a scene_scheme \<Rightarrow> event \<Rightarrow> artist list" where
  "find_artists_at_location contains s ev =
     sort_key (\<lambda>a. - zorder a)
       (filter (\<lambda>a. art_shape a \<noteq> None \<and> contains a ev) (children s))"

text \<open>The clause \<open>except KeyError: pass\<close> of \<open>do_action\<close>.\<close>

definition swallow_KeyError :: "error + unit \<Rightarrow> error + unit" where
  "swallow_KeyError r = (if r = Inl KeyError then Inr () else r)"

definition do_action ::
  "'a scene_scheme \<Rightarrow> event \<Rightarrow> artist option \<Rightarrow> string \<Rightarrow> 'a scene_scheme \<times> (error + unit)" where
  "do_action s ev target_artist event_key =
     (case target_artist of
        None \<Rightarrow> (s, Inr ())
      | Some a \<Rightarrow>
          (case art_shape a of
             None \<Rightarrow> (s, Inl AttributeError)
           | Some (i, handle) \<Rightarrow>
               (case shapes s i of
                  Element el \<Rightarrow>
                    (case oe_actions el event_key of
                       None \<Rightarrow> (s, Inr ())
                     | Some act \<Rightarrow>
                         (case run_element_action act el handle ev of
                            ((el', cs), r) \<Rightarrow>
                              (s\<lparr>shapes := (shapes s)(i := Element el'), calls := calls s @ cs\<rparr>,
                               swallow_KeyError r)))
                | Bundle rb \<Rightarrow>
                    (case rb_actions rb event_key of
                       None \<Rightarrow> (s, Inr ())
                     | Some act \<Rightarrow>
                         (case on_select_ray rb handle of
                            (cs, r) \<Rightarrow> (s\<lparr>calls := calls s @ cs\<rparr>, swallow_KeyError r))))))"

definition on_press :: "'a scene_scheme \<Rightarrow> event \<Rightarrow> 'a scene_scheme \<times> (error + unit)" where
  "on_press s ev =
     (let s1 = s\<lparr>do_scale_bounds := False\<rparr>;
          s2 = s1\<lparr>selected_artist := hilited_artist s1\<rparr>
      in do_action s2 ev (hilited_artist s2) ''press'')"

text \<open>
  \<open>on_motion\<close>: without a selected artist the topmost artist under the pointer
  becomes the highlighted one; with one, the motion is a drag. The last two
  statements of the drag branch read the shape of the selected artist again and
  log, which \<open>do_action\<close> has done without an exception before them.
\<close>

definition on_motion ::
  "(artist \<Rightarrow> event \<Rightarrow> bool) \<Rightarrow> 'a scene_scheme \<Rightarrow> event \<Rightarrow> 'a scene_scheme \<times> (error + unit)" where
  "on_motion contains s ev =
     (case selected_artist s of
        None \<Rightarrow>
          (let artists = find_artists_at_location contains s ev;
               next_hilited_artist = (if length artists > 0 then Some (artists ! 0) else None)
           in if map_option art_id next_hilited_artist \<noteq> map_option art_id (hilited_artist s)
              then (s\<lparr>calls := calls s
                      @ (case hilited_artist s of
                           None \<Rightarrow> []
                         | Some h \<Rightarrow> [Unhighlight (art_id h), CanvasDraw])
                      @ (case next_hilited_artist of
                           None \<Rightarrow> []
                         | Some n \<Rightarrow> [Highlight (art_id n), CanvasDraw]),
                    hilited_artist := next_hilited_artist\<rparr>, Inr ())
              else (s, Inr ()))
      | Some a \<Rightarrow> do_action s ev (Some a) ''drag'')"

definition on_release :: "'a scene_scheme \<Rightarrow> event \<Rightarrow> 'a scene_scheme \<times> (error + unit)" where
  "on_release s ev =
     (case do_action s ev (selected_artist s) ''release'' of
        (s', Inl e) \<Rightarrow> (s', Inl e)
      | (s', Inr u) \<Rightarrow> (s'\<lparr>do_scale_bounds := True, selected_artist := None\<rparr>, Inr ()))"

text \<open>
  The motion events of one gesture: the backend calls \<open>on_motion\<close> once for each
  event, and an exception of one call does not stop the later ones.
\<close>

fun motions ::
  "(artist \<Rightarrow> event \<Rightarrow> bool) \<Rightarrow> 'a scene_scheme \<Rightarrow> event list \<Rightarrow> 'a scene_scheme" where
  "motions contains s [] = s"
| "motions contains s (ev # evs) = motions contains (fst (on_motion contains s ev)) evs"

text \<open>Whether the action table of a shape has an entry for an event kind.\<close>

fun has_action :: "shape_obj \<Rightarrow> string \<Rightarrow> bool" where
  "has_action (Element el) k = (oe_actions el k \<noteq> None)"
| "has_action (Bundle rb) k = (rb_actions rb k \<noteq> None)"

section \<open>Concrete inputs\<close>

definition id_rot :: mat3 where
  "id_rot = ((1, 0, 0), (0, 1, 0), (0, 0, 1))"

text \<open>The rotation by a quarter turn about the x axis, without translation.\<close>

definition quarter_turn :: tfrm where
  "quarter_turn = (((1, 0, 0), (0, 0, -1), (0, 1, 0)), (0, 0, 0))"

text \<open>A ray that runs parallel to the first surface: its direction has z = 0.\<close>

definition c3_seg0 :: RaySeg where
  "c3_seg0 = \<lparr>seg_p = (Fin 0, Fin 0, Fin 0), seg_d = (0, 1, 0), seg_dst = Fin 5,
     seg_nrml = (0, 0, 1)\<rparr>"

definition c3_seg1 :: RaySeg where
  "c3_seg1 = \<lparr>seg_p = (Fin 0, Fin 5, Fin 0), seg_d = (0, 1, 0), seg_dst = Fin 0,
     seg_nrml = (0, 0, 1)\<rparr>"

text \<open>A chief ray along the axis, with direction z = -1, that meets the first surface at z = 5.\<close>

definition c9_seg0 :: RaySeg where
  "c9_seg0 = \<lparr>seg_p = (Fin 0, Fin 0, Fin 0), seg_d = (0, 0, - 1), seg_dst = Fin 5,
     seg_nrml = (0, 0, 1)\<rparr>"

definition c9_seg1 :: RaySeg where
  "c9_seg1 = \<lparr>seg_p = (Fin 0, Fin 0, Fin 5), seg_d = (0, 0, - 1), seg_dst = Fin 0,
     seg_nrml = (0, 0, 1)\<rparr>"

text \<open>
  A system whose object lies 100 in front of the first surface, a bundle with start
  offset 5, and a trace whose chief ray ends at the object surface: it has one
  segment only.
\<close>

definition c2_seq_model :: seq_model where
  "c2_seq_model = \<lparr>gbl_tfrms = [(id_rot, (0, 0, - 100)), (id_rot, (0, 0, 0))],
     num_ifcs = 2, num_gaps = 1\<rparr>"

definition c2_bundle :: ray_bundle where
  "c2_bundle = \<lparr>start_offset = 5, rayset = [], rb_handles = Map.empty,
     rb_actions = [''press'' \<mapsto> OnSelectRay], has_ray_table_callback = True\<rparr>"

definition c2_reverse_transform :: "real \<Rightarrow> tfrm" where
  "c2_reverse_transform off = (id_rot, (0, 0, - off))"

definition c2_traced :: "(string \<times> RayPkg) list" where
  "c2_traced = [(''00'', \<lparr>ray = [c9_seg0]\<rparr>)]"

text \<open>
  A lens outline of two points, a fresh element shape, the shape after a first
  call of \<open>update_shape\<close> that rendered the handle \<open>old\<close>, a second call on it
  that renders the handle \<open>shape\<close> only, and a call on the fresh shape whose
  first rendered handle has a tag that is neither polygon nor polyline.
\<close>

definition c6_value :: handle_value where
  "c6_value = ([(Fin 0, Fin 1), (Fin 0, Fin (- 1))], (id_rot, (0, 0, 0)), ''polygon'')"

definition c6_element :: optical_element where
  "c6_element = \<lparr>oe_handles = Map.empty, oe_actions = edit_shape_actions,
     handle_actions = Map.empty, select_pt = Attr None, move_direction = Attr None,
     e_handles = [], e_render_color = [158, 195, 253]\<rparr>"

definition c6_after_first :: optical_element where
  "c6_after_first = fst (OpticalElement_update_shape [(''old'', c6_value)] c6_element)"

definition c6_second :: "optical_element \<times> (error + handles)" where
  "c6_second = OpticalElement_update_shape [(''shape'', c6_value)] c6_after_first"

definition c6_unknown_tag :: "optical_element \<times> (error + handles)" where
  "c6_unknown_tag = OpticalElement_update_shape
     [(''a'', ([(Fin 0, Fin 1)], (id_rot, (0, 0, 0)), ''point'')), (''b'', c6_value)] c6_element"

text \<open>
  A ray bundle as \<open>create_ray_model\<close> builds it, the artist of its chief ray, a
  scene in which that artist is selected, the scene after loading (nothing
  highlighted, nothing selected, rescaling enabled) and a pointer event.
\<close>

definition field_bundle :: ray_bundle where
  "field_bundle = \<lparr>start_offset = 5, rayset = [], rb_handles = Map.empty,
     rb_actions = edit_ray_bundle_actions, has_ray_table_callback = True\<rparr>"

definition chief_artist :: artist where
  "chief_artist = \<lparr>art_id = 7, art_shape = Some (0, ''00''), zorder = 2\<rparr>"

definition c8_scene :: scene where
  "c8_scene = \<lparr>hilited_artist = Some chief_artist, selected_artist = Some chief_artist,
     do_scale_bounds = False, children = [chief_artist], shapes = (\<lambda>i. Bundle field_bundle),
     calls = []\<rparr>"

definition c7_scene :: scene where
  "c7_scene = \<lparr>hilited_artist = None, selected_artist = None,
     do_scale_bounds = True, children = [chief_artist], shapes = (\<lambda>i. Bundle field_bundle),
     calls = []\<rparr>"

definition pointer_event :: event where
  "pointer_event = \<lparr>ev_x = 10, ev_y = 20, xdata = Some 1, ydata = Some 2\<rparr>"

text \<open>
  Three artists that all contain the pointer, in the order in which they were
  added: one of z-order 1 and then two of z-order 2.
\<close>

definition c4_low :: artist where
  "c4_low = \<lparr>art_id = 1, art_shape = Some (0, ''shape''), zorder = 1\<rparr>"

definition c4_high :: artist where
  "c4_high = \<lparr>art_id = 2, art_shape = Some (0, ''00''), zorder = 2\<rparr>"

definition c4_last :: artist where
  "c4_last = \<lparr>art_id = 3, art_shape = Some (0, ''+Y''), zorder = 2\<rparr>"

definition c4_scene :: scene where
  "c4_scene = \<lparr>hilited_artist = None, selected_artist = None,
     do_scale_bounds = True, children = [c4_low, c4_high, c4_last],
     shapes = (\<lambda>i. Bundle field_bundle), calls = []\<rparr>"

definition everywhere :: "artist \<Rightarrow> event \<Rightarrow> bool" where
  "everywhere a ev = True"

text \<open>
  A lens that was pressed at the pixel (100, 100) and whose axis lock is \<open>x\<close>,
  its artist, the scene during the drag, and two motion events: the second is
  11 pixels to the right of the press point and 200 pixels above it.
\<close>

definition c5_lens :: optical_element where
  "c5_lens = \<lparr>oe_handles = Map.empty, oe_actions = edit_shape_actions,
     handle_actions = [''shape'' \<mapsto> [(''x'', {''press'', ''drag'', ''release''}),
                                      (''y'', {''press'', ''drag'', ''release''})]],
     select_pt = Attr (Some ((100, 100), (Some 1, Some 2))),
     move_direction = Attr (Some ''x''),
     e_handles = [(''shape'', c6_value)], e_render_color = [158, 195, 253]\<rparr>"

definition c5_artist :: artist where
  "c5_artist = \<lparr>art_id = 4, art_shape = Some (0, ''shape''), zorder = 2.5\<rparr>"

definition c5_scene :: scene where
  "c5_scene = \<lparr>hilited_artist = Some c5_artist, selected_artist = Some c5_artist,
     do_scale_bounds = False, children = [c5_artist], shapes = (\<lambda>i. Element c5_lens),
     calls = []\<rparr>"

definition c5_events :: "event list" where
  "c5_events = [\<lparr>ev_x = 110, ev_y = 101, xdata = Some 1.1, ydata = Some 2.01\<rparr>,
                \<lparr>ev_x = 111, ev_y = 300, xdata = Some 1.11, ydata = Some 4\<rparr>]"

text \<open>
  A lens whose handle \<open>shape\<close> is turned by half a turn about the x axis and
  shifted by (2, 3) in y and z, and whose handle-action table has a \<open>pt\<close> entry
  beside the \<open>x\<close> entry; the lens after a press at the pixel (100, 100); a mirror
  with the same table after the same press; and the lens of the drag above with a
  \<open>pt\<close> entry that has no drag handler. The motion event is at the data position
  (3, 4), ten pixels to the right of the press point.
\<close>

definition half_turn_shifted :: tfrm where
  "half_turn_shifted = (((1, 0, 0), (0, - 1, 0), (0, 0, - 1)), (0, 2, 3))"

definition c10_handle_actions :: "string \<rightharpoonup> (string \<times> string set) list" where
  "c10_handle_actions =
     [''shape'' \<mapsto> [(''pt'', {''press'', ''drag'', ''release''}),
                      (''x'', {''press'', ''drag'', ''release''})]]"

definition c10_rendered :: "(string \<times> handle_value) list" where
  "c10_rendered = [(''shape'', ([(Fin 0, Fin 1), (Fin 0, Fin (- 1))], half_turn_shifted, ''polygon''))]"

definition c10_press :: event where
  "c10_press = \<lparr>ev_x = 100, ev_y = 100, xdata = Some 1, ydata = Some 2\<rparr>"

definition c10_lens :: optical_element where
  "c10_lens = fst (fst (on_select_shape
     (LensElement_init c10_handle_actions c10_rendered [158, 195, 253]) ''shape'' c10_press))"

definition c10_mirror :: optical_element where
  "c10_mirror = fst (fst (on_select_shape
     (MirrorElement_init c10_handle_actions c10_rendered [192, 192, 192]) ''shape'' c10_press))"

definition c10_lens_without_drag :: optical_element where
  "c10_lens_without_drag = c5_lens\<lparr>handle_actions :=
     [''shape'' \<mapsto> [(''pt'', {''press'', ''release''}),
                      (''x'', {''press'', ''drag'', ''release''})]]\<rparr>"

definition c10_event :: event where
  "c10_event = \<lparr>ev_x = 110, ev_y = 101, xdata = Some 3, ydata = Some 4\<rparr>"

section \<open>Properties of the geometry utilities\<close>

text \<open>
  Without a rotation the two transforms do undo each other on a point: the 2x2
  block is the unit matrix and only the translation is added and subtracted.
\<close>

lemma round_trip_without_rotation:
  "inv_transform_poly (id_rot, t) (Pt (transform_pt (id_rot, t) (Fin x, Fin y)))
     = Inr (Pt (Fin x, Fin y))"
  by (cases t) (simp add: inv_transform_poly_def transform_pt_def inv_pt_def id_rot_def)

text \<open>
  C1. \<open>transform_poly\<close> followed by \<open>inv_transform_poly\<close> with the same transform
  should give back the local polygon. It does not: \<open>inv_transform_poly\<close> subtracts
  the translation but applies the rotation block itself, not its inverse. For the
  rotation by a quarter turn about the x axis and no translation (all entries
  exact floats) the point (1, 0) goes to (0, -1) and comes back as (-1, 0); and the
  polygon that \<open>transform_poly\<close> returns cannot be passed back at all, the
  one-point polygon raises ValueError in the broadcast.
\<close>

theorem C1_round_trip_fails:
  "transform_poly quarter_turn (Poly [(Fin 1, Fin 0)])
     = Inr ([(Fin 0, Fin (-1))], ((Fin 0, Fin (-1)), (Fin 0, Fin (-1))))
   \<and> inv_transform_poly quarter_turn (Pt (Fin 0, Fin (-1))) = Inr (Pt (Fin (-1), Fin 0))
   \<and> inv_transform_poly quarter_turn (Poly [(Fin 0, Fin (-1))]) = Inl ValueError"
  by (simp add: transform_poly_def inv_transform_poly_def quarter_turn_def
      transform_pt_def inv_pt_def bbox_from_poly_def)

subsection \<open>The start shift of a ray bundle\<close>

lemma fadd_NonFin_right: "fadd a NonFin = NonFin"
  by (cases a) simp_all

lemma fsub_NonFin_right: "fsub a NonFin = NonFin"
  by (cases a) simp_all

lemma fscale_NonFin: "fvec_add a (fscale NonFin v) = (NonFin, NonFin, NonFin)"
  by (cases a; cases v) (simp add: fadd_NonFin_right)

lemma frow_dot_NonFin: "frow_dot (fvec_sub a (NonFin, NonFin, NonFin)) v = NonFin"
  by (cases a; cases v) (simp add: fsub_NonFin_right)

lemma shift_ray_chief:
  assumes "2 \<le> length (ray r)" "start_bundle \<noteq> []"
  shows "shift_ray start_bundle 0 r rot t = Inr (start_bundle[0 := chief_seg r rot t])"
proof -
  have "ray r \<noteq> []" using assms(1) by auto
  then show ?thesis using assms
    by (simp add: shift_ray_def py_nth_def Let_def chief_seg_def)
qed

lemma shift_ray_marginal:
  assumes "2 \<le> length (ray r)" "0 < ri" "ri < length start_bundle"
  shows "\<exists>s. shift_ray start_bundle ri r rot t = Inr (start_bundle[ri := s])
           \<and> (seg_p (start_bundle ! 0) = (NonFin, NonFin, NonFin) \<longrightarrow> nonfin_seg s)"
proof -
  have "ray r \<noteq> []" "start_bundle \<noteq> []" using assms(1,3) by auto
  then show ?thesis using assms
    by (auto simp: shift_ray_def py_nth_def Let_def frow_dot_NonFin fscale_NonFin nonfin_seg_def)
qed

lemma shift_loop_marginals:
  assumes "\<forall>q \<in> set rs. 2 \<le> length (ray q)" "0 < ri" "ri + length rs = length sb"
  shows "\<exists>sb'. shift_loop sb ri rs rot t = Inr sb' \<and> length sb' = length sb
           \<and> sb' ! 0 = sb ! 0
           \<and> ((\<forall>i < ri. nonfin_seg (sb ! i)) \<longrightarrow> (\<forall>i < length sb'. nonfin_seg (sb' ! i)))"
  using assms
proof (induction rs arbitrary: sb ri)
  case Nil
  then show ?case by simp
next
  case (Cons r rs)
  from Cons.prems have len: "ri < length sb" and r2: "2 \<le> length (ray r)" by auto
  from shift_ray_marginal[OF r2 Cons.prems(2) len, of rot t]
  obtain s where s: "shift_ray sb ri r rot t = Inr (sb[ri := s])"
    and nf: "seg_p (sb ! 0) = (NonFin, NonFin, NonFin) \<longrightarrow> nonfin_seg s"
    by blast
  have "\<exists>sb'. shift_loop (sb[ri := s]) (Suc ri) rs rot t = Inr sb'
           \<and> length sb' = length (sb[ri := s]) \<and> sb' ! 0 = (sb[ri := s]) ! 0
           \<and> ((\<forall>i < Suc ri. nonfin_seg ((sb[ri := s]) ! i))
                \<longrightarrow> (\<forall>i < length sb'. nonfin_seg (sb' ! i)))"
    using Cons.prems by (intro Cons.IH) auto
  then obtain sb' where sb': "shift_loop (sb[ri := s]) (Suc ri) rs rot t = Inr sb'"
    "length sb' = length sb" "sb' ! 0 = (sb[ri := s]) ! 0"
    "(\<forall>i < Suc ri. nonfin_seg ((sb[ri := s]) ! i)) \<longrightarrow> (\<forall>i < length sb'. nonfin_seg (sb' ! i))"
    by auto
  have keep0: "sb' ! 0 = sb ! 0" using sb'(3) Cons.prems(2) by simp
  have all: "(\<forall>i < ri. nonfin_seg (sb ! i)) \<longrightarrow> (\<forall>i < length sb'. nonfin_seg (sb' ! i))"
  proof
    assume a: "\<forall>i < ri. nonfin_seg (sb ! i)"
    then have "seg_p (sb ! 0) = (NonFin, NonFin, NonFin)"
      using Cons.prems(2) by (simp add: nonfin_seg_def)
    with nf have "nonfin_seg s" by simp
    with a len have "\<forall>i < Suc ri. nonfin_seg ((sb[ri := s]) ! i)"
      by (auto simp: nth_list_update less_Suc_eq)
    with sb'(4) show "\<forall>i < length sb'. nonfin_seg (sb' ! i)" by simp
  qed
  show ?case using s sb'(1,2) keep0 all by simp
qed

lemma shift_start_chief:
  assumes "\<forall>q \<in> set (r # rs). 2 \<le> length (ray q)"
    "length start_bundle = length (r # rs)"
  shows "\<exists>sb. shift_start_of_ray_bundle start_bundle (r # rs) rot t = Inr sb
           \<and> length sb = length start_bundle \<and> sb ! 0 = chief_seg r rot t
           \<and> (nonfin_seg (chief_seg r rot t) \<longrightarrow> (\<forall>i < length sb. nonfin_seg (sb ! i)))"
proof -
  have ne: "start_bundle \<noteq> []" and r2: "2 \<le> length (ray r)" using assms by auto
  let ?sb1 = "start_bundle[0 := chief_seg r rot t]"
  have "\<exists>sb'. shift_loop ?sb1 (Suc 0) rs rot t = Inr sb' \<and> length sb' = length ?sb1
           \<and> sb' ! 0 = ?sb1 ! 0
           \<and> ((\<forall>i < Suc 0. nonfin_seg (?sb1 ! i)) \<longrightarrow> (\<forall>i < length sb'. nonfin_seg (sb' ! i)))"
    using assms by (intro shift_loop_marginals) auto
  then show ?thesis
    using ne by (auto simp: shift_start_of_ray_bundle_def shift_ray_chief[OF r2 ne])
qed

text \<open>
  C9. For the chief ray, with z component \<open>pz\<close> of the transformed point and a
  non-zero z component \<open>dz\<close> of the transformed direction, the shift stores the
  distance \<open>- pz / dz\<close> and a start point with z = 0, on the virtual plane; for
  \<open>pz = 5\<close> and \<open>dz = -1\<close> the distance is 5. The other rays need two segments
  each, as the loop reads them too.
\<close>

theorem C9_chief_ray_distance:
  assumes "\<forall>q \<in> set (r # rs). 2 \<le> length (ray q)"
    and "length start_bundle = length (r # rs)"
    and "z_of (fvec_sub (fmat_dot rot (seg_p (ray r ! 1))) (fin_vec t)) = Fin pz"
    and "z_of (mat_dot rot (seg_d (ray r ! 0))) = dz"
    and "dz \<noteq> 0"
  shows "\<exists>sb. shift_start_of_ray_bundle start_bundle (r # rs) rot t = Inr sb
           \<and> seg_dst (sb ! 0) = Fin (- pz / dz)
           \<and> z_of (seg_p (sb ! 0)) = Fin 0
           \<and> (pz = 5 \<and> dz = - 1 \<longrightarrow> seg_dst (sb ! 0) = Fin 5)"
proof -
  obtain bx by' bz where b: "fvec_sub (fmat_dot rot (seg_p (ray r ! 1))) (fin_vec t) = (bx, by', bz)"
    by (cases "fvec_sub (fmat_dot rot (seg_p (ray r ! 1))) (fin_vec t)") auto
  obtain dx dy dz' where d: "mat_dot rot (seg_d (ray r ! 0)) = (dx, dy, dz')"
    by (cases "mat_dot rot (seg_d (ray r ! 0))") auto
  have bz: "bz = Fin pz" and dz': "dz' = dz" using assms(3,4) b d by simp_all
  have "seg_dst (chief_seg r rot t) = Fin (- pz / dz)"
    using assms(5) unfolding chief_seg_def Let_def b d bz dz' by simp
  moreover have "z_of (seg_p (chief_seg r rot t)) = Fin 0"
    using assms(5) unfolding chief_seg_def Let_def b d bz dz' by simp
  ultimately show ?thesis
    using shift_start_chief[OF assms(1,2), of rot t] by auto
qed

theorem C9_chief_ray_distance_witness:
  "\<exists>sb. shift_start_of_ray_bundle [c9_seg0] [\<lparr>ray = [c9_seg0, c9_seg1]\<rparr>] id_rot (0, 0, 0) = Inr sb
        \<and> seg_dst (sb ! 0) = Fin 5 \<and> z_of (seg_p (sb ! 0)) = Fin 0"
proof -
  let ?r = "\<lparr>ray = [c9_seg0, c9_seg1]\<rparr>"
  have h1: "\<forall>q \<in> set (?r # []). 2 \<le> length (ray q)" by simp
  have h2: "length [c9_seg0] = length (?r # [])" by simp
  have h3: "z_of (fvec_sub (fmat_dot id_rot (seg_p (ray ?r ! 1))) (fin_vec (0, 0, 0))) = Fin 5"
    by (simp add: c9_seg1_def id_rot_def)
  have h4: "z_of (mat_dot id_rot (seg_d (ray ?r ! 0))) = - 1"
    by (simp add: c9_seg0_def id_rot_def)
  have h5: "(- 1 :: real) \<noteq> 0" by simp
  from C9_chief_ray_distance [OF h1 h2 h3 h4 h5] show ?thesis by auto
qed

text \<open>
  C3 (as amended). When the transformed direction of the chief ray has z component
  zero, the shift raises no exception, but it does not keep the original start
  point either: the division yields a non-finite distance, and every start segment
  of the bundle is overwritten with a non-finite point and distance.
\<close>

theorem C3_zero_direction_gives_nonfinite_start:
  assumes "\<forall>q \<in> set (r # rs). 2 \<le> length (ray q)"
    and "length start_bundle = length (r # rs)"
    and "z_of (mat_dot rot (seg_d (ray r ! 0))) = 0"
  shows "\<exists>sb. shift_start_of_ray_bundle start_bundle (r # rs) rot t = Inr sb
           \<and> length sb = length start_bundle
           \<and> (\<forall>i < length sb. nonfin_seg (sb ! i))"
proof -
  have "fdiv (fneg a) 0 = NonFin" for a by (cases a) simp_all
  then have "nonfin_seg (chief_seg r rot t)"
    using assms(3) by (simp add: chief_seg_def nonfin_seg_def Let_def fscale_NonFin)
  with shift_start_chief[OF assms(1,2), of rot t] show ?thesis by blast
qed

text \<open>
  C3 as stated fails: for a ray parallel to the first surface the start point
  (0, 0, 0) is replaced by a point without a finite coordinate.
\<close>

theorem C3_start_point_not_kept:
  "shift_start_of_ray_bundle [c3_seg0] [\<lparr>ray = [c3_seg0, c3_seg1]\<rparr>] id_rot (0, 0, -5)
     = Inr [\<lparr>seg_p = (NonFin, NonFin, NonFin), seg_d = (0, 1, 0), seg_dst = NonFin,
             seg_nrml = (0, 0, 1)\<rparr>]
   \<and> seg_p c3_seg0 \<noteq> (NonFin, NonFin, NonFin)"
  by (simp add: shift_start_of_ray_bundle_def shift_ray_def py_nth_def c3_seg0_def c3_seg1_def
      id_rot_def)

theorem C3_zero_direction_witness:
  "\<exists>sb. shift_start_of_ray_bundle [c3_seg0, c3_seg0]
          [\<lparr>ray = [c3_seg0, c3_seg1]\<rparr>, \<lparr>ray = [c3_seg0, c3_seg1]\<rparr>] id_rot (0, 0, -5) = Inr sb
        \<and> length sb = length [c3_seg0, c3_seg0] \<and> (\<forall>i < length sb. nonfin_seg (sb ! i))"
proof -
  let ?r = "\<lparr>ray = [c3_seg0, c3_seg1]\<rparr>"
  have h1: "\<forall>q \<in> set (?r # [?r]). 2 \<le> length (ray q)" by simp
  have h2: "length [c3_seg0, c3_seg0] = length (?r # [?r])" by simp
  have h3: "z_of (mat_dot id_rot (seg_d (ray ?r ! 0))) = 0"
    by (simp add: c3_seg0_def id_rot_def)
  show ?thesis
    by (rule C3_zero_direction_gives_nonfinite_start [OF h1 h2 h3])
qed

section \<open>Properties of the shapes\<close>

subsection \<open>RayBundle.update_shape and the first transform\<close>

lemma first_segs_length:
  "first_segs rs = Inr ss \<Longrightarrow> length ss = length rs"
proof (induction rs arbitrary: ss)
  case Nil
  then show ?case by simp
next
  case (Cons r rs)
  then show ?case
    by (auto split: sum.splits)
qed

lemma shift_start_total:
  assumes "\<forall>q \<in> set rs. 2 \<le> length (ray q)" "length start_bundle = length rs"
  shows "\<exists>sb. shift_start_of_ray_bundle start_bundle rs rot t = Inr sb"
proof (cases rs)
  case Nil
  then show ?thesis by (simp add: shift_start_of_ray_bundle_def)
next
  case (Cons r rs')
  with shift_start_chief[of r rs' start_bundle rot t] assms show ?thesis by auto
qed

lemma update_shape_restores_when_shift_succeeds:
  assumes "\<forall>q \<in> set (map snd traced). 2 \<le> length (ray q)"
  shows "gbl_tfrms (fst (fst (RayBundle_update_shape rt traced sm rb))) = gbl_tfrms sm"
proof (cases "py_nth (gbl_tfrms sm) 0")
  case (Inl e)
  then show ?thesis by (simp add: RayBundle_update_shape_def)
next
  case (Inr tf0)
  then have ne: "gbl_tfrms sm \<noteq> []" and tf0: "tf0 = gbl_tfrms sm ! 0"
    by (auto simp: py_nth_def split: if_splits)
  show ?thesis
  proof (cases "first_segs (map snd traced)")
    case (Inl e)
    then show ?thesis using Inr by (simp add: RayBundle_update_shape_def)
  next
    case sb: (Inr start_bundle)
    have len: "length start_bundle = length (map snd traced)"
      using first_segs_length[OF sb] .
    show ?thesis
    proof (cases "\<bar>z_of (snd tf0)\<bar> > start_offset rb")
      case False
      then show ?thesis using Inr sb tf0
        by (auto simp: RayBundle_update_shape_def Let_def split: sum.splits prod.splits)
    next
      case True
      show ?thesis
      proof (cases "setup_shift_of_ray_bundle rt sm (start_offset rb)")
        case (Inl e)
        then show ?thesis using Inr sb True by (simp add: RayBundle_update_shape_def)
      next
        case rt: (Inr rott)
        obtain rot t where rott: "rott = (rot, t)" by (cases rott)
        from shift_start_total[OF assms len, of rot t]
        obtain sb1 where sb1: "shift_start_of_ray_bundle start_bundle (map snd traced) rot t = Inr sb1"
          by blast
        show ?thesis using Inr sb True rt rott sb1 tf0
          by (auto simp: RayBundle_update_shape_def Let_def split: sum.splits prod.splits)
      qed
    qed
  qed
qed

text \<open>
  C2. \<open>update_shape\<close> overrides the first global transform and should write the
  saved transform back on every exit path. The call of
  \<open>shift_start_of_ray_bundle\<close> comes after the override and before the \<open>try\<close>
  statement, so an exception raised there leaves the override in place. With a
  chief ray of one segment the shift raises IndexError at \<open>r.ray[1]\<close>, and the
  method ends with the transform of the virtual surface in \<open>gbl_tfrms[0]\<close>
  instead of the original one. The lemma above covers the other exit paths: when
  the shift cannot fail, the list of transforms is the same after the call,
  whatever happens in the \<open>try\<close> block.
\<close>

theorem C2_override_left_in_place:
  "RayBundle_update_shape c2_reverse_transform c2_traced c2_seq_model c2_bundle
     = ((c2_seq_model\<lparr>gbl_tfrms := [(id_rot, (0, 0, - 5)), (id_rot, (0, 0, 0))]\<rparr>,
         c2_bundle\<lparr>rayset := c2_traced\<rparr>), Inl IndexError)
   \<and> gbl_tfrms c2_seq_model ! 0 = (id_rot, (0, 0, - 100))"
  by (simp add: RayBundle_update_shape_def c2_seq_model_def c2_bundle_def c2_traced_def
      c2_reverse_transform_def py_nth_def setup_shift_of_ray_bundle_def
      shift_start_of_ray_bundle_def shift_ray_def)

subsection \<open>OpticalElement.update_shape and the handle mapping\<close>

lemma draw_handle_cases:
  assumes "fst v \<noteq> []"
  shows "\<exists>gbl bb. transform_poly (fst (snd v)) (Poly (fst v)) = Inr (gbl, bb)
           \<and> draw_handle color v =
               Inr (if snd (snd v) = ''polygon'' then Some (create_polygon gbl color (Some 2.5), bb)
                    else if snd (snd v) = ''polyline'' then Some (create_polyline gbl, bb)
                    else None)"
proof -
  obtain poly tf tag where v: "v = (poly, tf, tag)" by (cases v)
  have ne: "poly \<noteq> []" using assms v by simp
  then obtain q qs where q: "poly = q # qs" by (cases poly) auto
  obtain bb where bb: "bbox_from_poly (map (transform_pt tf) poly) = Inr bb"
    by (simp add: bbox_from_poly_def q)
  then show ?thesis using ne
    by (simp add: v draw_handle_def transform_poly_def)
qed

lemma update_handles_spec:
  assumes "\<forall>kv \<in> set rendered. fst (snd kv) \<noteq> []"
  shows "\<exists>h'. update_handles color h rendered = (h', Inr ())
    \<and> (\<forall>k. case map_of (rev (takeWhile known_tag rendered)) k of
              None \<Rightarrow> h' k = h k
            | Some v \<Rightarrow> (\<exists>gbl bb. transform_poly (fst (snd v)) (Poly (fst v)) = Inr (gbl, bb)
                \<and> h' k = Some (if snd (snd v) = ''polygon''
                                then create_polygon gbl color (Some 2.5)
                                else create_polyline gbl, bb)))"
  using assms
proof (induction rendered arbitrary: h)
  case Nil
  then show ?case by simp
next
  case (Cons kv rest)
  obtain key v where kv: "kv = (key, v)" by (cases kv)
  have ne: "fst v \<noteq> []" using Cons.prems kv by simp
  from draw_handle_cases[OF ne, of color]
  obtain gbl bb where tp: "transform_poly (fst (snd v)) (Poly (fst v)) = Inr (gbl, bb)"
    and dh: "draw_handle color v =
               Inr (if snd (snd v) = ''polygon'' then Some (create_polygon gbl color (Some 2.5), bb)
                    else if snd (snd v) = ''polyline'' then Some (create_polyline gbl, bb)
                    else None)"
    by blast
  show ?case
  proof (cases "known_tag kv")
    case False
    then show ?thesis using dh kv by (auto simp: known_tag_def)
  next
    case True
    define pb where "pb = (if snd (snd v) = ''polygon''
                                then create_polygon gbl color (Some 2.5)
                                else create_polyline gbl, bb)"
    have dh': "draw_handle color v = Inr (Some pb)"
      using dh True kv by (auto simp: known_tag_def pb_def)
    have prem: "\<forall>kv \<in> set rest. fst (snd kv) \<noteq> []" using Cons.prems by simp
    from Cons.IH[OF prem, of "h(key \<mapsto> pb)"]
    obtain h' where h': "update_handles color (h(key \<mapsto> pb)) rest = (h', Inr ())"
      and sp0: "\<forall>k. case map_of (rev (takeWhile known_tag rest)) k of
              None \<Rightarrow> h' k = (h(key \<mapsto> pb)) k
            | Some v \<Rightarrow> (\<exists>gbl bb. transform_poly (fst (snd v)) (Poly (fst v)) = Inr (gbl, bb)
                \<and> h' k = Some (if snd (snd v) = ''polygon''
                                then create_polygon gbl color (Some 2.5)
                                else create_polyline gbl, bb))"
      by blast
    note sp = sp0[rule_format]
    have run: "update_handles color h (kv # rest) = (h', Inr ())"
      using dh' h' kv by simp
    have "case map_of (rev (takeWhile known_tag (kv # rest))) k of
              None \<Rightarrow> h' k = h k
            | Some v \<Rightarrow> (\<exists>gbl bb. transform_poly (fst (snd v)) (Poly (fst v)) = Inr (gbl, bb)
                \<and> h' k = Some (if snd (snd v) = ''polygon''
                                then create_polygon gbl color (Some 2.5)
                                else create_polyline gbl, bb))" for k
    proof (cases "map_of (rev (takeWhile known_tag rest)) k")
      case (Some w)
      then show ?thesis using sp[of k] True kv by (simp add: map_add_def)
    next
      case None
      then show ?thesis using sp[of k] True kv tp
        by (auto simp: map_add_def pb_def split: if_splits)
    qed
    then show ?thesis using run by blast
  qed
qed


text \<open>
  C6 (as amended). When no rendered polygon is empty, \<open>update_shape\<close> returns
  \<open>self.handles\<close>, in which every rendered handle before the first one with an
  unknown tag has the artifact of its tag and the bounding box of its transformed
  polygon, and every other key has the entry it had before the call.
\<close>

theorem C6_update_shape_mapping:
  assumes "\<forall>kv \<in> set rendered. fst (snd kv) \<noteq> []"
  shows "\<exists>h'. OpticalElement_update_shape rendered el
                 = (el\<lparr>e_handles := rendered, oe_handles := h'\<rparr>, Inr h')
    \<and> (\<forall>k. case map_of (rev (takeWhile known_tag rendered)) k of
              None \<Rightarrow> h' k = oe_handles el k
            | Some v \<Rightarrow> (\<exists>gbl bb. transform_poly (fst (snd v)) (Poly (fst v)) = Inr (gbl, bb)
                \<and> h' k = Some (if snd (snd v) = ''polygon''
                                then create_polygon gbl (e_render_color el) (Some 2.5)
                                else create_polyline gbl, bb)))"
proof -
  from update_handles_spec[OF assms, of "e_render_color el" "oe_handles el"]
  obtain h' where run: "update_handles (e_render_color el) (oe_handles el) rendered = (h', Inr ())"
    and sp: "\<forall>k. case map_of (rev (takeWhile known_tag rendered)) k of
              None \<Rightarrow> h' k = oe_handles el k
            | Some v \<Rightarrow> (\<exists>gbl bb. transform_poly (fst (snd v)) (Poly (fst v)) = Inr (gbl, bb)
                \<and> h' k = Some (if snd (snd v) = ''polygon''
                                then create_polygon gbl (e_render_color el) (Some 2.5)
                                else create_polyline gbl, bb))"
    by blast
  have "OpticalElement_update_shape rendered el
          = (el\<lparr>e_handles := rendered, oe_handles := h'\<rparr>, Inr h')"
    using run by (simp add: OpticalElement_update_shape_def)
  with sp show ?thesis by blast
qed

theorem C6_update_shape_mapping_witness:
  "\<exists>h'. OpticalElement_update_shape [(''shape'', c6_value)] c6_element
                 = (c6_element\<lparr>e_handles := [(''shape'', c6_value)], oe_handles := h'\<rparr>, Inr h')
    \<and> (\<forall>k. case map_of (rev (takeWhile known_tag [(''shape'', c6_value)])) k of
              None \<Rightarrow> h' k = oe_handles c6_element k
            | Some v \<Rightarrow> (\<exists>gbl bb. transform_poly (fst (snd v)) (Poly (fst v)) = Inr (gbl, bb)
                \<and> h' k = Some (if snd (snd v) = ''polygon''
                                then create_polygon gbl (e_render_color c6_element) (Some 2.5)
                                else create_polyline gbl, bb)))"
proof -
  have h: "\<forall>kv \<in> set [(''shape'', c6_value)]. fst (snd kv) \<noteq> []"
    by (simp add: c6_value_def)
  show ?thesis by (rule C6_update_shape_mapping [OF h])
qed

text \<open>
  C6 as stated fails. The mapping is never emptied: after a first call that
  rendered the handle \<open>old\<close>, a second call that renders only \<open>shape\<close> returns
  both entries. And a tag other than polygon and polyline ends the loop: the
  handle \<open>b\<close> behind it gets no entry.
\<close>

theorem C6_earlier_entry_survives_and_handle_skipped:
  "snd c6_second = Inr (oe_handles (fst c6_second))
   \<and> oe_handles (fst c6_second) ''old'' \<noteq> None
   \<and> oe_handles (fst c6_second) ''shape'' \<noteq> None
   \<and> snd c6_unknown_tag = Inr (oe_handles (fst c6_unknown_tag))
   \<and> oe_handles (fst c6_unknown_tag) ''a'' = None
   \<and> oe_handles (fst c6_unknown_tag) ''b'' = None"
  by (simp add: c6_second_def c6_after_first_def c6_unknown_tag_def
      OpticalElement_update_shape_def c6_element_def c6_value_def draw_handle_def
      transform_poly_def bbox_from_poly_def)

section \<open>Properties of the interactive scene\<close>

text \<open>
  C8. A dispatch whose event kind has no entry in the action table of the target
  shape changes nothing and raises nothing: the scene, with its record of calls,
  is the same afterwards. For a ray bundle, whose table has the entry press only,
  that holds for drag and release.
\<close>

theorem C8_missing_action_is_noop:
  assumes "art_shape a = Some (i, handle)"
    and "\<not> has_action (shapes s i) event_key"
  shows "do_action s ev (Some a) event_key = (s, Inr ())"
  using assms by (cases "shapes s i") (auto simp: do_action_def)

theorem C8_missing_action_witness:
  "do_action c8_scene pointer_event (Some chief_artist) ''drag'' = (c8_scene, Inr ())
   \<and> do_action c8_scene pointer_event (Some chief_artist) ''release'' = (c8_scene, Inr ())"
proof -
  have h1: "art_shape chief_artist = Some (0, ''00'')" by (simp add: chief_artist_def)
  have h2: "\<not> has_action (shapes c8_scene 0) ''drag''"
    by (simp add: c8_scene_def field_bundle_def edit_ray_bundle_actions_def)
  have h3: "\<not> has_action (shapes c8_scene 0) ''release''"
    by (simp add: c8_scene_def field_bundle_def edit_ray_bundle_actions_def)
  show ?thesis
    using C8_missing_action_is_noop [OF h1 h2] C8_missing_action_is_noop [OF h1 h3] by simp
qed

text \<open>
  C7 (as amended). A press while no artist is highlighted sets no drag target,
  dispatches no action and raises nothing, but it is not without effect:
  \<open>do_scale_bounds\<close> is set to False. Every other field of the scene keeps its value.
\<close>

theorem C7_press_without_hover:
  assumes "hilited_artist s = None"
  shows "on_press s ev = (s\<lparr>do_scale_bounds := False, selected_artist := None\<rparr>, Inr ())"
  using assms by (simp add: on_press_def do_action_def Let_def)

theorem C7_press_without_hover_witness:
  "on_press c7_scene pointer_event
     = (c7_scene\<lparr>do_scale_bounds := False, selected_artist := None\<rparr>, Inr ())"
proof -
  have h: "hilited_artist c7_scene = None" by (simp add: c7_scene_def)
  show ?thesis by (rule C7_press_without_hover [OF h])
qed

text \<open>
  C7 as stated fails: in the scene after loading rescaling is enabled, and a press
  on the empty background disables it.
\<close>

theorem C7_press_changes_do_scale_bounds:
  "hilited_artist c7_scene = None
   \<and> do_scale_bounds c7_scene = True
   \<and> do_scale_bounds (fst (on_press c7_scene pointer_event)) = False"
  by (simp add: on_press_def do_action_def c7_scene_def)

subsection \<open>Hit testing\<close>

lemma sort_key_head:
  assumes "xs \<noteq> []"
  shows "hd (sort_key f xs) \<in> set xs"
    and "\<forall>a \<in> set xs. f (hd (sort_key f xs)) \<le> f a"
    and "hd (sort_key f xs) = hd (filter (\<lambda>a. f a = f (hd (sort_key f xs))) xs)"
proof -
  let ?ys = "sort_key f xs"
  have "set ?ys = set xs" by simp
  then have ne: "?ys \<noteq> []" using assms by (cases ?ys) auto
  then obtain h rest where ys: "?ys = h # rest" by (cases ?ys) auto
  have "h \<in> set ?ys" using ys by simp
  then have "h \<in> set xs" by simp
  then show "hd ?ys \<in> set xs" using ys by simp
  have "sorted (map f ?ys)" by (rule sorted_sort_key)
  then have "\<forall>a \<in> set ?ys. f h \<le> f a" using ys by auto
  then have "\<forall>a \<in> set xs. f h \<le> f a" by simp
  then show "\<forall>a \<in> set xs. f (hd ?ys) \<le> f a" using ys by simp
  have st: "filter (\<lambda>a. f a = f h) ?ys = filter (\<lambda>a. f a = f h) xs"
    by (rule sort_key_stable)
  have "filter (\<lambda>a. f a = f h) ?ys = h # filter (\<lambda>a. f a = f h) rest"
    unfolding ys by simp
  with st have "filter (\<lambda>a. f a = f h) xs = h # filter (\<lambda>a. f a = f h) rest"
    by simp
  then have "hd (filter (\<lambda>a. f a = f h) xs) = h" by simp
  then show "hd ?ys = hd (filter (\<lambda>a. f a = f (hd ?ys)) xs)" using ys by simp
qed

text \<open>
  C4 (as amended). While nothing is selected, a motion event makes the first of
  the sorted artists the highlighted one. It is an artist with a shape that
  contains the pointer, no such artist has a higher z-order, and among those of
  its z-order it is the first in the list of children, the one added first.
\<close>

theorem C4_hit_target:
  assumes "selected_artist s = None"
    and "cands = filter (\<lambda>a. art_shape a \<noteq> None \<and> contains a ev) (children s)"
    and "cands \<noteq> []"
  shows "\<exists>h. find_artists_at_location contains s ev \<noteq> []
             \<and> h = hd (find_artists_at_location contains s ev)
             \<and> map_option art_id (hilited_artist (fst (on_motion contains s ev))) = Some (art_id h)
             \<and> h \<in> set cands
             \<and> (\<forall>a \<in> set cands. zorder a \<le> zorder h)
             \<and> h = hd (filter (\<lambda>a. zorder a = zorder h) cands)"
proof -
  let ?f = "\<lambda>a. - zorder a"
  let ?ys = "find_artists_at_location contains s ev"
  have ys: "?ys = sort_key ?f cands"
    using assms(2) by (simp add: find_artists_at_location_def)
  have "set ?ys = set cands" using ys by simp
  then have ne: "?ys \<noteq> []" using assms(3) by (cases ?ys) auto
  have hd0: "?ys ! 0 = hd ?ys" using ne by (simp add: hd_conv_nth)
  have hil: "map_option art_id (hilited_artist (fst (on_motion contains s ev))) = Some (art_id (hd ?ys))"
  proof (cases "map_option art_id (Some (hd ?ys)) \<noteq> map_option art_id (hilited_artist s)")
    case True
    then show ?thesis using assms(1) ne hd0 by (simp add: on_motion_def Let_def)
  next
    case False
    then have "map_option art_id (hilited_artist s) = Some (art_id (hd ?ys))" by simp
    then show ?thesis using assms(1) ne hd0 False by (simp add: on_motion_def Let_def)
  qed
  have mem: "hd ?ys \<in> set cands" using sort_key_head(1)[OF assms(3), of ?f] ys by simp
  have top: "\<forall>a \<in> set cands. zorder a \<le> zorder (hd ?ys)"
    using sort_key_head(2)[OF assms(3), of ?f] ys by simp
  have first: "hd ?ys = hd (filter (\<lambda>a. zorder a = zorder (hd ?ys)) cands)"
    using sort_key_head(3)[OF assms(3), of ?f] ys by simp
  show ?thesis using ne hil mem top first by blast
qed

theorem C4_hit_target_witness:
  "\<exists>h. find_artists_at_location everywhere c4_scene pointer_event \<noteq> []
        \<and> h = hd (find_artists_at_location everywhere c4_scene pointer_event)
        \<and> map_option art_id (hilited_artist (fst (on_motion everywhere c4_scene pointer_event)))
            = Some (art_id h)
        \<and> h \<in> set [c4_low, c4_high, c4_last]
        \<and> (\<forall>a \<in> set [c4_low, c4_high, c4_last]. zorder a \<le> zorder h)
        \<and> h = hd (filter (\<lambda>a. zorder a = zorder h) [c4_low, c4_high, c4_last])"
proof -
  have h1: "selected_artist c4_scene = None" by (simp add: c4_scene_def)
  have h2: "[c4_low, c4_high, c4_last]
      = filter (\<lambda>a. art_shape a \<noteq> None \<and> everywhere a pointer_event) (children c4_scene)"
    by (simp add: c4_scene_def c4_low_def c4_high_def c4_last_def everywhere_def)
  have h3: "[c4_low, c4_high, c4_last] \<noteq> []" by simp
  show ?thesis
    by (rule C4_hit_target [where s = c4_scene and contains = everywhere and ev = pointer_event,
          OF h1 h2 h3])
qed


text \<open>
  C4 as stated fails in its tie-break: of the two artists of z-order 2 the hit
  target is the one added before the other, not the most recently added one. The
  artist of z-order 1 comes last, as the claim says.
\<close>

theorem C4_first_added_wins_tie:
  "children c4_scene = [c4_low, c4_high, c4_last]
   \<and> zorder c4_high = zorder c4_last
   \<and> find_artists_at_location everywhere c4_scene pointer_event = [c4_high, c4_last, c4_low]
   \<and> hilited_artist (fst (on_motion everywhere c4_scene pointer_event)) = Some c4_high
   \<and> c4_high \<noteq> c4_last"
  by (simp add: c4_scene_def c4_low_def c4_high_def c4_last_def everywhere_def
      find_artists_at_location_def on_motion_def)

subsection \<open>The axis lock of a drag\<close>

lemma ebind_eq_Inr: "ebind m f = Inr y \<longleftrightarrow> (\<exists>x. m = Inr x \<and> f x = Inr y)"
  by (cases m) simp_all

lemma edit_reads_keeps_lock:
  assumes "edit_reads el handle ev = Inr (ha, md, e, p)" "move_direction el = Attr (Some d)"
  shows "md = Some d"
  using assms by (auto simp: edit_reads_def ebind_eq_Inr)

lemma on_edit_shape_keeps_lock:
  assumes "move_direction el = Attr (Some d)"
  shows "move_direction (fst (fst (on_edit_shape el handle ev))) = Attr (Some d)
       \<and> oe_actions (fst (fst (on_edit_shape el handle ev))) = oe_actions el"
proof (cases "edit_reads el handle ev")
  case (Inl e)
  then show ?thesis using assms by (simp add: on_edit_shape_def)
next
  case (Inr res)
  obtain ha md e p where res: "res = (ha, md, e, p)" by (cases res) auto
  have md: "md = Some d" using edit_reads_keeps_lock[OF Inr[unfolded res] assms] .
  obtain ex ey where e: "e = (ex, ey)" by (cases e)
  obtain px py where p: "p = (px, py)" by (cases p)
  show ?thesis using Inr res md e p
    by (auto simp: on_edit_shape_def Let_def split: sum.splits)
qed

lemma on_motion_drag_keeps_lock:
  assumes "selected_artist s = Some a" "art_shape a = Some (i, handle)"
    "shapes s i = Element el" "oe_actions el = edit_shape_actions"
    "move_direction el = Attr (Some d)"
  shows "selected_artist (fst (on_motion contains s ev)) = Some a
       \<and> (\<exists>el'. shapes (fst (on_motion contains s ev)) i = Element el'
              \<and> oe_actions el' = edit_shape_actions
              \<and> move_direction el' = Attr (Some d))"
proof -
  obtain el' cs r where run: "on_edit_shape el handle ev = ((el', cs), r)"
    by (metis surj_pair)
  have keep: "move_direction el' = Attr (Some d) \<and> oe_actions el' = oe_actions el"
    using on_edit_shape_keeps_lock[OF assms(5), of handle ev] run by simp
  have "on_motion contains s ev
          = (s\<lparr>shapes := (shapes s)(i := Element el'), calls := calls s @ cs\<rparr>, swallow_KeyError r)"
    using assms run
    by (simp add: on_motion_def do_action_def edit_shape_actions_def run_element_action_def)
  then show ?thesis using keep assms by simp
qed

text \<open>
  C5. While an optical element is dragged and its axis lock is set to an axis,
  no sequence of motion events changes the lock: after all of them the shape of
  the selected artist has the same lock, whatever the pixel deltas of the events
  are and whether or not a call of \<open>on_edit_shape\<close> raised on the way.
\<close>

theorem C5_axis_lock_is_sticky:
  assumes "selected_artist s = Some a"
    and "art_shape a = Some (i, handle)"
    and "shapes s i = Element el"
    and "oe_actions el = edit_shape_actions"
    and "move_direction el = Attr (Some d)"
  shows "\<exists>el'. shapes (motions contains s evs) i = Element el'
              \<and> move_direction el' = Attr (Some d)"
  using assms
proof (induction evs arbitrary: s el)
  case Nil
  then show ?case by simp
next
  case (Cons ev evs)
  from on_motion_drag_keeps_lock[OF Cons.prems, of contains ev]
  obtain el' where sel: "selected_artist (fst (on_motion contains s ev)) = Some a"
    and el': "shapes (fst (on_motion contains s ev)) i = Element el'"
      "oe_actions el' = edit_shape_actions" "move_direction el' = Attr (Some d)"
    by blast
  from Cons.IH[OF sel Cons.prems(2) el'] show ?case by simp
qed

theorem C5_axis_lock_witness:
  "\<exists>el'. shapes (motions everywhere c5_scene c5_events) 0 = Element el'
        \<and> move_direction el' = Attr (Some ''x'')"
proof -
  have h1: "selected_artist c5_scene = Some c5_artist" by (simp add: c5_scene_def)
  have h2: "art_shape c5_artist = Some (0, ''shape'')" by (simp add: c5_artist_def)
  have h3: "shapes c5_scene 0 = Element c5_lens" by (simp add: c5_scene_def)
  have h4: "oe_actions c5_lens = edit_shape_actions" by (simp add: c5_lens_def)
  have h5: "move_direction c5_lens = Attr (Some ''x'')" by (simp add: c5_lens_def)
  show ?thesis by (rule C5_axis_lock_is_sticky [OF h1 h2 h3 h4 h5])
qed

subsection \<open>The dispatch of a drag\<close>

lemma drag_calls_pt:
  assumes "map_of ha ''pt'' = Some kinds"
  shows "drag_calls ha md lcl_pt dxdy
           = (if ''drag'' \<in> kinds then [Handler ''pt'' ''drag'' (LclPt lcl_pt)] else [])"
  using assms by (simp add: drag_calls_def)

lemma on_edit_shape_calls:
  "snd (fst (on_edit_shape el handle ev)) = []
   \<or> (\<exists>ha md lcl_pt dxdy. handle_actions el handle = Some ha
        \<and> snd (fst (on_edit_shape el handle ev)) = drag_calls ha md lcl_pt dxdy @ [RefreshGui])"
proof (cases "edit_reads el handle ev")
  case (Inl e)
  then show ?thesis by (simp add: on_edit_shape_def)
next
  case (Inr res)
  obtain ha md ex ey px py where res: "res = (ha, md, (ex, ey), (px, py))"
    by (cases res) auto
  have "handle_actions el handle = Some ha"
    using Inr res by (auto simp: edit_reads_def ebind_eq_Inr py_get_def split: option.splits)
  then show ?thesis using Inr res
    by (auto simp: on_edit_shape_def Let_def split: sum.splits)
qed

lemma edit_reads_ok:
  assumes "handle_actions el handle = Some ha"
    and "select_pt el = Attr (Some (pxy, (Some pxdata, Some pydata)))"
    and "xdata ev = Some exdata" and "ydata ev = Some eydata"
    and "move_direction el = Attr md"
  shows "edit_reads el handle ev
           = Inr (ha, (if md = None
                       then new_direction \<bar>fst pxy - ev_x ev\<bar> \<bar>snd pxy - ev_y ev\<bar>
                       else md), (exdata, eydata), (pxdata, pydata))"
  using assms by (simp add: edit_reads_def py_get_def num_def)

text \<open>
  What the free-point handler gets is the result of \<open>inv_transform_poly\<close> on the
  data position of the pointer, whatever the transform of the handle is.
\<close>

lemma on_edit_shape_pt_drag:
  assumes "handle_actions el handle = Some ha"
    and "map_of ha ''pt'' = Some kinds" and "''drag'' \<in> kinds"
    and "select_pt el = Attr (Some (pxy, (Some pxdata, Some pydata)))"
    and "xdata ev = Some exdata" and "ydata ev = Some eydata"
    and "move_direction el = Attr md"
    and "map_of (e_handles el) handle = Some (poly, tf, tag)"
    and "inv_transform_poly tf (Pt (Fin exdata, Fin eydata)) = Inr lcl_pt"
  shows "on_edit_shape el handle ev
           = ((el\<lparr>move_direction := Attr (if md = None
                  then new_direction \<bar>fst pxy - ev_x ev\<bar> \<bar>snd pxy - ev_y ev\<bar>
                  else md)\<rparr>,
               [Handler ''pt'' ''drag'' (LclPt lcl_pt), RefreshGui]), Inr ())"
  using edit_reads_ok[OF assms(1,4,5,6,7)] assms(2,3,8,9)
  by (simp add: on_edit_shape_def py_get_def drag_calls_pt)

text \<open>
  When the 2x2 block of the rotation is its own inverse, \<open>inv_transform_poly\<close>
  gives the local point of a global point: the point that the transform of the
  handle maps to it.
\<close>

lemma inv_transform_poly_local_point:
  assumes "self_inverse_block (fst tf)"
  shows "\<exists>lx ly. inv_transform_poly tf (Pt (Fin gx, Fin gy)) = Inr (Pt (Fin lx, Fin ly))
           \<and> transform_pt tf (Fin lx, Fin ly) = (Fin gx, Fin gy)"
proof -
  obtain r00 r01 r02 r10 r11 r12 r20 r21 r22 t0 t1 t2
    where tf: "tf = (((r00, r01, r02), (r10, r11, r12), (r20, r21, r22)), (t0, t1, t2))"
    by (metis surj_pair)
  have h: "r11 * r11 + r12 * r21 = 1" "r11 * r12 + r12 * r22 = 0"
    "r21 * r11 + r22 * r21 = 0" "r21 * r12 + r22 * r22 = 1"
    using assms tf by simp_all
  define a where "a = gy - t1"
  define b where "b = gx - t2"
  have inv: "inv_transform_poly tf (Pt (Fin gx, Fin gy))
               = Inr (Pt (Fin (r21 * a + r22 * b), Fin (r11 * a + r12 * b)))"
    by (simp add: tf inv_transform_poly_def inv_pt_def a_def b_def)
  have "r11 * (r11 * a + r12 * b) + r12 * (r21 * a + r22 * b)
          = (r11 * r11 + r12 * r21) * a + (r11 * r12 + r12 * r22) * b"
    by (simp add: algebra_simps)
  then have e1: "r11 * (r11 * a + r12 * b) + r12 * (r21 * a + r22 * b) = a"
    using h by simp
  have "r21 * (r11 * a + r12 * b) + r22 * (r21 * a + r22 * b)
          = (r21 * r11 + r22 * r21) * a + (r21 * r12 + r22 * r22) * b"
    by (simp add: algebra_simps)
  then have e2: "r21 * (r11 * a + r12 * b) + r22 * (r21 * a + r22 * b) = b"
    using h by simp
  have "transform_pt tf (Fin (r21 * a + r22 * b), Fin (r11 * a + r12 * b)) = (Fin gx, Fin gy)"
    using e1 e2 by (simp add: tf transform_pt_def a_def b_def)
  with inv show ?thesis by blast
qed

text \<open>
  A shape that \<open>OpticalElement.__init__\<close> or \<open>MirrorElement.__init__\<close> built has
  no attribute \<open>move_direction\<close> before its first release: its first drag raises
  AttributeError at the test of the axis lock, before any handler is called.
\<close>

lemma on_edit_shape_without_axis_lock_attribute:
  assumes "handle_actions el handle = Some ha"
    and "select_pt el = Attr (Some (pxy, (Some pxdata, Some pydata)))"
    and "xdata ev = Some exdata" and "ydata ev = Some eydata"
    and "move_direction el = Unset"
  shows "on_edit_shape el handle ev = ((el, []), Inl AttributeError)"
  using assms by (simp add: on_edit_shape_def edit_reads_def py_get_def num_def)

lemma first_drag_of_mirror_raises:
  "on_edit_shape c10_mirror ''shape'' c10_event = ((c10_mirror, []), Inl AttributeError)"
  by (rule on_edit_shape_without_axis_lock_attribute
        [where pxy = "(100, 100)" and pxdata = 1 and pydata = 2 and exdata = 3 and eydata = 4])
     (simp_all add: c10_mirror_def MirrorElement_init_def OpticalElement_init_def
        on_select_shape_def py_get_def c10_handle_actions_def c10_press_def c10_event_def)

text \<open>
  C10 (as amended). When the handle-action table of the handle has a \<open>pt\<close>
  entry, \<open>on_edit_shape\<close> calls no drag handler of another entry, whatever the
  axis lock is, and no drag handler at all when the \<open>pt\<close> entry has none. When
  the entry has a drag handler, the shape has its attribute \<open>move_direction\<close>, the
  press point and the event have data positions, the element has the handle and
  the rotation block of the transform of the handle is its own inverse, the
  free-point handler is called once, before the refresh, with the local point of
  the pointer: the point that the transform of the handle maps to the data
  position of the pointer.
\<close>

theorem C10_pt_entry_takes_the_drag:
  assumes "handle_actions el handle = Some ha"
    and "map_of ha ''pt'' = Some kinds"
  shows "(\<forall>k arg. k \<noteq> ''pt'' \<longrightarrow>
            Handler k ''drag'' arg \<notin> set (snd (fst (on_edit_shape el handle ev))))
     \<and> (''drag'' \<notin> kinds \<longrightarrow>
           (\<forall>k arg. Handler k ''drag'' arg \<notin> set (snd (fst (on_edit_shape el handle ev)))))
     \<and> (''drag'' \<in> kinds
          \<and> select_pt el = Attr (Some (pxy, (Some pxdata, Some pydata)))
          \<and> xdata ev = Some exdata \<and> ydata ev = Some eydata
          \<and> move_direction el = Attr md
          \<and> map_of (e_handles el) handle = Some (poly, tf, tag)
          \<and> self_inverse_block (fst tf)
         \<longrightarrow> (\<exists>lx ly. transform_pt tf (Fin lx, Fin ly) = (Fin exdata, Fin eydata)
                \<and> on_edit_shape el handle ev
                    = ((el\<lparr>move_direction := Attr (if md = None
                            then new_direction \<bar>fst pxy - ev_x ev\<bar> \<bar>snd pxy - ev_y ev\<bar>
                            else md)\<rparr>,
                        [Handler ''pt'' ''drag'' (LclPt (Pt (Fin lx, Fin ly))), RefreshGui]),
                       Inr ())))"
proof (intro conjI allI impI)
  fix k arg
  assume k: "k \<noteq> ''pt''"
  from on_edit_shape_calls[of el handle ev]
  show "Handler k ''drag'' arg \<notin> set (snd (fst (on_edit_shape el handle ev)))"
    using assms k by (auto simp: drag_calls_pt)
next
  fix k arg
  assume "''drag'' \<notin> kinds"
  with on_edit_shape_calls[of el handle ev]
  show "Handler k ''drag'' arg \<notin> set (snd (fst (on_edit_shape el handle ev)))"
    using assms by (auto simp: drag_calls_pt)
next
  assume a: "''drag'' \<in> kinds
          \<and> select_pt el = Attr (Some (pxy, (Some pxdata, Some pydata)))
          \<and> xdata ev = Some exdata \<and> ydata ev = Some eydata
          \<and> move_direction el = Attr md
          \<and> map_of (e_handles el) handle = Some (poly, tf, tag)
          \<and> self_inverse_block (fst tf)"
  then have si: "self_inverse_block (fst tf)" by simp
  from inv_transform_poly_local_point[OF si, of exdata eydata]
  obtain lx ly where inv: "inv_transform_poly tf (Pt (Fin exdata, Fin eydata)) = Inr (Pt (Fin lx, Fin ly))"
    and loc: "transform_pt tf (Fin lx, Fin ly) = (Fin exdata, Fin eydata)"
    by blast
  have "on_edit_shape el handle ev
          = ((el\<lparr>move_direction := Attr (if md = None
                  then new_direction \<bar>fst pxy - ev_x ev\<bar> \<bar>snd pxy - ev_y ev\<bar>
                  else md)\<rparr>,
              [Handler ''pt'' ''drag'' (LclPt (Pt (Fin lx, Fin ly))), RefreshGui]), Inr ())"
    using a by (intro on_edit_shape_pt_drag[OF assms(1,2) _ _ _ _ _ _ inv]) simp_all
  with loc show "\<exists>lx ly. transform_pt tf (Fin lx, Fin ly) = (Fin exdata, Fin eydata)
                \<and> on_edit_shape el handle ev
                    = ((el\<lparr>move_direction := Attr (if md = None
                            then new_direction \<bar>fst pxy - ev_x ev\<bar> \<bar>snd pxy - ev_y ev\<bar>
                            else md)\<rparr>,
                        [Handler ''pt'' ''drag'' (LclPt (Pt (Fin lx, Fin ly))), RefreshGui]),
                       Inr ())"
    by blast
qed

theorem C10_pt_entry_witness:
  "transform_pt half_turn_shifted (Fin 0, Fin (- 2)) = (Fin 3, Fin 4)
   \<and> on_edit_shape c10_lens ''shape'' c10_event
       = ((c10_lens\<lparr>move_direction := Attr (Some ''x'')\<rparr>,
           [Handler ''pt'' ''drag'' (LclPt (Pt (Fin 0, Fin (- 2)))), RefreshGui]), Inr ())"
proof -
  let ?ha = "[(''pt'', {''press'', ''drag'', ''release''}), (''x'', {''press'', ''drag'', ''release''})]"
  let ?poly = "[(Fin 0, Fin 1), (Fin 0, Fin (- 1))]"
  have lens: "c10_lens = (LensElement_init c10_handle_actions c10_rendered [158, 195, 253])
                \<lparr>select_pt := Attr (Some ((100, 100), (Some 1, Some 2)))\<rparr>"
    by (simp add: c10_lens_def on_select_shape_def LensElement_init_def OpticalElement_init_def
        py_get_def c10_handle_actions_def c10_press_def)
  have h1: "handle_actions c10_lens ''shape'' = Some ?ha"
    by (simp add: lens LensElement_init_def OpticalElement_init_def c10_handle_actions_def)
  have h2: "map_of ?ha ''pt'' = Some {''press'', ''drag'', ''release''}" by simp
  have p: "''drag'' \<in> {''press'', ''drag'', ''release''}
          \<and> select_pt c10_lens = Attr (Some ((100, 100), (Some 1, Some 2)))
          \<and> xdata c10_event = Some 3 \<and> ydata c10_event = Some 4
          \<and> move_direction c10_lens = Attr None
          \<and> map_of (e_handles c10_lens) ''shape'' = Some (?poly, half_turn_shifted, ''polygon'')
          \<and> self_inverse_block (fst half_turn_shifted)"
    by (simp add: lens LensElement_init_def OpticalElement_init_def c10_rendered_def
        c10_event_def half_turn_shifted_def)
  from C10_pt_entry_takes_the_drag [OF h1 h2, of c10_event "(100, 100)" 1 2 3 4
      None ?poly half_turn_shifted "''polygon''"] p
  obtain lx ly where loc: "transform_pt half_turn_shifted (Fin lx, Fin ly) = (Fin 3, Fin 4)"
    and r: "on_edit_shape c10_lens ''shape'' c10_event
        = ((c10_lens\<lparr>move_direction := Attr (new_direction \<bar>100 - ev_x c10_event\<bar> \<bar>100 - ev_y c10_event\<bar>)\<rparr>,
            [Handler ''pt'' ''drag'' (LclPt (Pt (Fin lx, Fin ly))), RefreshGui]), Inr ())"
    by auto
  have l: "lx = 0 \<and> ly = - 2"
    using loc by (simp add: transform_pt_def half_turn_shifted_def)
  have d: "new_direction \<bar>100 - ev_x c10_event\<bar> \<bar>100 - ev_y c10_event\<bar> = Some ''x''"
    by (simp add: new_direction_def c10_event_def)
  show ?thesis using loc r l d by simp
qed

text \<open>
  C10 as stated fails where the \<open>pt\<close> entry has no drag handler: the drag
  returns after the refresh and the free-point action was not called.
\<close>

theorem C10_pt_entry_without_drag_handler:
  "handle_actions c10_lens_without_drag ''shape''
     = Some [(''pt'', {''press'', ''release''}), (''x'', {''press'', ''drag'', ''release''})]
   \<and> on_edit_shape c10_lens_without_drag ''shape'' c10_event
       = ((c10_lens_without_drag, [RefreshGui]), Inr ())"
  by (simp add: c10_lens_without_drag_def c5_lens_def c10_event_def c6_value_def
      on_edit_shape_def edit_reads_def py_get_def num_def drag_calls_def
      inv_transform_poly_def)

end
